theory Spec2Isabelle
  imports Main "HOL-Library.Sublist"
begin

section \<open>JavaScript values and the error class (utils/ApiError.js)\<close>

text \<open>
  The two kinds of value that the handlers pass to the error constructor: number literals
  and string literals.
\<close>

datatype jsval = Num int | Str string

definition digit_char :: "nat \<Rightarrow> char" where
  "digit_char d =
     (if d = 0 then CHR ''0'' else if d = 1 then CHR ''1'' else if d = 2 then CHR ''2''
      else if d = 3 then CHR ''3'' else if d = 4 then CHR ''4'' else if d = 5 then CHR ''5''
      else if d = 6 then CHR ''6'' else if d = 7 then CHR ''7'' else if d = 8 then CHR ''8''
      else CHR ''9'')"

fun digits :: "nat \<Rightarrow> string" where
  "digits n = (if n < 10 then [digit_char n] else digits (n div 10) @ [digit_char (n mod 10)])"

declare digits.simps [simp del]

text \<open>String conversion, as a template literal and the \<open>Error\<close> constructor perform it.\<close>

definition js_toString :: "jsval \<Rightarrow> string" where
  "js_toString v = (case v of
       Str s \<Rightarrow> s
     | Num n \<Rightarrow> (if n < 0 then CHR ''-'' # digits (nat (- n)) else digits (nat n)))"

text \<open>Truthiness of a value on the left of \<open>||\<close>.\<close>

definition truthy :: "jsval \<Rightarrow> bool" where
  "truthy v = (case v of Num n \<Rightarrow> n \<noteq> 0 | Str s \<Rightarrow> s \<noteq> [])"

record ApiError =
  statusCode :: jsval
  message :: string
  status :: string
  isOperational :: bool

text \<open>
  \<open>constructor(statusCode, message, isOperational = true, stack = '')\<close>: the first positional
  argument becomes \<open>statusCode\<close>, the second goes to \<open>super(message)\<close>.
\<close>

definition new_ApiError :: "jsval \<Rightarrow> jsval \<Rightarrow> ApiError" where
  "new_ApiError sc msg =
     \<lparr>statusCode = sc,
      message = js_toString msg,
      status = (if prefix ''4'' (js_toString sc) then ''fail'' else ''error''),
      isOperational = True\<rparr>"

text \<open>
  What a handler hands to \<open>next\<close>: an \<open>ApiError\<close>, or another exception that a
  \<open>catch (err) { next(err) }\<close> forwards unchanged.
\<close>

datatype failure = Api ApiError | Thrown string

section \<open>The global error handler (utils/errorHandler.js)\<close>

datatype node_env = Development | Production | OtherEnv

text \<open>
  The handler on an \<open>ApiError\<close>: the value that reaches \<open>res.status\<close>, \<open>None\<close> when the
  handler writes no response (\<open>NODE_ENV\<close> neither development nor production). The error
  is first given \<open>err.statusCode || 500\<close> as its \<open>statusCode\<close>.
\<close>

definition globalErrorHandler :: "node_env \<Rightarrow> ApiError \<Rightarrow> jsval option" where
  "globalErrorHandler env err =
     (let sc = (if truthy (statusCode err) then statusCode err else Num 500)
      in case env of
           Development \<Rightarrow> Some sc
         | Production \<Rightarrow> (if isOperational err then Some sc else Some (Num 500))
         | OtherEnv \<Rightarrow> None)"

section \<open>The user model (models/User.js)\<close>

text \<open>
  The paths of \<open>userSchema\<close> that the authentication code reads or writes. Times are
  milliseconds since the epoch, as \<open>Date.now()\<close> gives them; an absent path is \<open>None\<close>.
  \<open>password\<close> holds what the document holds: the plaintext between an assignment and the
  next save, the bcrypt hash afterwards.

  The last two fields are not paths of the schema. The second \<open>getResetPasswordToken\<close> and
  \<open>forgotPassword\<close> assign them as plain properties of the document in memory, and
  \<open>resetPassword\<close> names them in its query. In a stored document they are fields that
  only something other than \<open>save\<close> can have written.
\<close>

record user =
  user_id :: nat
  name :: string
  email :: string
  role :: string
  password :: string
  passwordChangedAt :: "int option"
  passwordResetToken :: "string option"
  passwordResetExpires :: "int option"
  emailVerificationToken :: "string option"
  emailVerificationExpires :: "int option"
  isEmailVerified :: bool
  isActive :: bool
  lastLogin :: "int option"
  failedLoginAttempts :: "nat option"
  accountLockedUntil :: "int option"
  refreshToken :: "string option"
  refreshTokenExpire :: "int option"
  resetPasswordToken :: "string option"
  resetPasswordExpire :: "int option"

text \<open>\<open>enum: ['user', 'publisher', 'admin']\<close> of the \<open>role\<close> path.\<close>

definition role_enum :: "string list" where
  "role_enum = [''user'', ''publisher'', ''admin'']"

datatype verify_result = Decoded nat int | TokenExpiredError | JsonWebTokenError

text \<open>
  The libraries, taken as parameters: \<open>crypto.createHash('sha256').update(x).digest('hex')\<close>,
  \<open>jwt.sign\<close> of the payload \<open>{id, role}\<close> at an instant, \<open>jwt.verify\<close> at an instant
  (giving \<open>decoded.id\<close> and \<open>decoded.iat\<close>, the latter in seconds), \<open>bcrypt.hash\<close> and
  \<open>bcrypt.compare\<close>, the validators of the name, email and password paths, and the
  setters that the schema puts on the email path (\<open>lowercase\<close>, \<open>trim\<close>) and on the name
  path (\<open>trim\<close>), which mongoose applies to a value given to a new document and to a value
  in the filter of a query.
  authController.js uses the identifier \<open>crypto\<close> without requiring the module, unlike
  models/User.js and middleware/auth.js; \<open>controller_crypto\<close> is what that identifier gives
  there: \<open>None\<close> when hashing through it raises, \<open>Some h\<close> when it hashes with \<open>h\<close>.
\<close>

record libs =
  sha256hex :: "string \<Rightarrow> string"
  controller_crypto :: "(string \<Rightarrow> string) option"
  jwt_sign :: "nat \<Rightarrow> string \<Rightarrow> int \<Rightarrow> string"
  jwt_verify :: "string \<Rightarrow> int \<Rightarrow> verify_result"
  bcrypt_hash :: "string \<Rightarrow> string"
  bcrypt_compare :: "string \<Rightarrow> string \<Rightarrow> bool"
  paths_valid :: "string \<Rightarrow> string \<Rightarrow> string \<Rightarrow> bool"
  set_email :: "string \<Rightarrow> string"
  set_name :: "string \<Rightarrow> string"

definition days7 :: int where
  "days7 = 7 * 24 * 60 * 60 * 1000"

definition getSignedJwtToken :: "libs \<Rightarrow> int \<Rightarrow> user \<Rightarrow> string" where
  "getSignedJwtToken L now u = jwt_sign L (user_id u) (role u) now"

definition matchPassword :: "libs \<Rightarrow> user \<Rightarrow> string \<Rightarrow> bool" where
  "matchPassword L u candidatePassword = bcrypt_compare L candidatePassword (password u)"

text \<open>
  \<open>parseInt(t / 1000, 10)\<close> on a number of milliseconds: the quotient with its fraction
  dropped.
\<close>

definition parseInt_seconds :: "int \<Rightarrow> int" where
  "parseInt_seconds t = (if 0 \<le> t then t div 1000 else - ((- t) div 1000))"

definition changedPasswordAfter :: "user \<Rightarrow> int \<Rightarrow> bool" where
  "changedPasswordAfter u JWTTimestamp =
     (case passwordChangedAt u of
        Some c \<Rightarrow> JWTTimestamp < parseInt_seconds c
      | None \<Rightarrow> False)"

text \<open>
  \<open>getRefreshToken\<close>: \<open>rnd\<close> is \<open>crypto.randomBytes(40).toString('hex')\<close>. The method
  returns the plaintext and leaves its hash and the expiry on the document.
\<close>

definition getRefreshToken :: "libs \<Rightarrow> string \<Rightarrow> int \<Rightarrow> user \<Rightarrow> string \<times> user" where
  "getRefreshToken L rnd now u =
     (rnd, u\<lparr>refreshToken := Some (sha256hex L rnd), refreshTokenExpire := Some (now + days7)\<rparr>)"

text \<open>
  \<open>getEmailVerificationToken\<close> and \<open>getResetPasswordToken\<close> are each assigned twice on
  \<open>userSchema.methods\<close>; the later assignment is the method that documents have. The
  earlier \<open>getResetPasswordToken\<close> is kept under its own name.
\<close>

definition getEmailVerificationToken :: "libs \<Rightarrow> string \<Rightarrow> user \<Rightarrow> string \<times> user" where
  "getEmailVerificationToken L rnd u = (rnd, u\<lparr>emailVerificationToken := Some (sha256hex L rnd)\<rparr>)"

definition getResetPasswordToken_first :: "libs \<Rightarrow> string \<Rightarrow> int \<Rightarrow> user \<Rightarrow> string \<times> user" where
  "getResetPasswordToken_first L rnd now u =
     (rnd, u\<lparr>passwordResetToken := Some (sha256hex L rnd),
             passwordResetExpires := Some (now + 10 * 60 * 1000)\<rparr>)"

definition getResetPasswordToken :: "libs \<Rightarrow> string \<Rightarrow> int \<Rightarrow> user \<Rightarrow> string \<times> user" where
  "getResetPasswordToken L rnd now u =
     (rnd, u\<lparr>resetPasswordToken := Some (sha256hex L rnd),
             resetPasswordExpire := Some (now + 10 * 60 * 1000)\<rparr>)"

section \<open>The collection and \<open>save\<close>\<close>

text \<open>
  The collection is the list of stored documents. \<open>faults\<close> gives the outcome of the
  successive writes: \<open>True\<close> means that the write is rejected by the persistence engine;
  past the end of the list every write is accepted.
\<close>

record store =
  users :: "user list"
  faults :: "bool list"

definition findOne :: "(user \<Rightarrow> bool) \<Rightarrow> store \<Rightarrow> user option" where
  "findOne P s = find P (users s)"

definition findById :: "nat \<Rightarrow> store \<Rightarrow> user option" where
  "findById i s = findOne (\<lambda>u. user_id u = i) s"

definition put :: "user \<Rightarrow> user list \<Rightarrow> user list" where
  "put u us = (case find (\<lambda>x. user_id x = user_id u) us of
                 Some _ \<Rightarrow> map (\<lambda>x. if user_id x = user_id u then u else x) us
               | None \<Rightarrow> us @ [u])"

text \<open>
  The four \<open>pre('save')\<close> hooks. \<open>old\<close> is the stored document, \<open>None\<close> for a new one
  (\<open>isNew\<close>); a path is modified when its value differs from the stored one.
\<close>

definition pre_save :: "libs \<Rightarrow> int \<Rightarrow> user option \<Rightarrow> user \<Rightarrow> user" where
  "pre_save L now old u =
     (let pw_mod = (case old of None \<Rightarrow> True | Some d \<Rightarrow> password d \<noteq> password u);
          u1 = (if pw_mod then u\<lparr>password := bcrypt_hash L (password u)\<rparr> else u);
          u2 = (if pw_mod \<and> old \<noteq> None then u1\<lparr>passwordChangedAt := Some (now - 1000)\<rparr> else u1);
          ev_mod = (case old of None \<Rightarrow> emailVerificationToken u \<noteq> None
                    | Some d \<Rightarrow> emailVerificationToken d \<noteq> emailVerificationToken u);
          u3 = (if ev_mod \<and> emailVerificationToken u \<noteq> None \<and> emailVerificationToken u \<noteq> Some []
                then u2\<lparr>emailVerificationExpires := Some (now + 24 * 60 * 60 * 1000)\<rparr> else u2);
          pr_mod = (case old of None \<Rightarrow> passwordResetToken u \<noteq> None
                    | Some d \<Rightarrow> passwordResetToken d \<noteq> passwordResetToken u)
      in if pr_mod \<and> passwordResetToken u \<noteq> None \<and> passwordResetToken u \<noteq> Some []
         then u3\<lparr>passwordResetExpires := Some (now + 10 * 60 * 1000)\<rparr> else u3)"

text \<open>
  Only the paths of the schema are written (the schema options set \<open>timestamps\<close>,
  \<open>toJSON\<close> and \<open>toObject\<close>, nothing about \<open>strict\<close>): the two fields that are not
  paths keep the value that the stored document has, and a new document has none.
\<close>

definition schema_paths :: "user option \<Rightarrow> user \<Rightarrow> user" where
  "schema_paths old u =
     (case old of
        None \<Rightarrow> u\<lparr>resetPasswordToken := None, resetPasswordExpire := None\<rparr>
      | Some d \<Rightarrow> u\<lparr>resetPasswordToken := resetPasswordToken d,
                     resetPasswordExpire := resetPasswordExpire d\<rparr>)"

text \<open>
  \<open>user.save(...)\<close>: the hooks run on the document, then the write is attempted. The
  result says whether the promise is fulfilled and gives the document as the hooks leave it.
\<close>

definition save :: "libs \<Rightarrow> int \<Rightarrow> user \<Rightarrow> store \<Rightarrow> bool \<times> user \<times> store" where
  "save L now u s =
     (let old = findById (user_id u) s;
          u' = pre_save L now old u;
          d = schema_paths old u'
      in case faults s of
           [] \<Rightarrow> (True, u', s\<lparr>users := put d (users s)\<rparr>)
         | f # fs \<Rightarrow>
             (if f then (False, u', s\<lparr>faults := fs\<rparr>)
              else (True, u', s\<lparr>users := put d (users s), faults := fs\<rparr>)))"

definition store_after :: "bool \<times> user \<times> store \<Rightarrow> store" where
  "store_after r = snd (snd r)"

text \<open>
  The lockout methods of the model. \<open>isAccountLocked\<close> starts its save without waiting for
  it; \<open>incrementLoginAttempts\<close> waits, and its result says whether the save was fulfilled
  (a rejection is thrown to the caller).
\<close>

definition locked_now :: "user \<Rightarrow> int \<Rightarrow> bool" where
  "locked_now u now = (case accountLockedUntil u of Some t \<Rightarrow> now < t | None \<Rightarrow> False)"

definition attempts_of :: "user \<Rightarrow> nat" where
  "attempts_of u = (case failedLoginAttempts u of Some k \<Rightarrow> k | None \<Rightarrow> 0)"

definition isAccountLocked :: "libs \<Rightarrow> int \<Rightarrow> user \<Rightarrow> store \<Rightarrow> bool \<times> user \<times> store" where
  "isAccountLocked L now u s =
     (if locked_now u now then (True, u, s)
      else if 5 \<le> attempts_of u
      then (let u' = u\<lparr>failedLoginAttempts := Some 0, accountLockedUntil := None\<rparr>
            in (False, u', store_after (save L now u' s)))
      else (False, u, s))"

definition incrementLoginAttempts :: "libs \<Rightarrow> int \<Rightarrow> user \<Rightarrow> store \<Rightarrow> bool \<times> store" where
  "incrementLoginAttempts L now u s =
     (if locked_now u now then (True, s)
      else
        (let u1 = u\<lparr>failedLoginAttempts := Some (attempts_of u + 1)\<rparr>;
             u2 = (if 5 \<le> attempts_of u1
                   then u1\<lparr>accountLockedUntil := Some (now + 30 * 60 * 1000)\<rparr> else u1)
         in (fst (save L now u2 s), store_after (save L now u2 s))))"

text \<open>
  The text of \<open>Math.ceil((user.accountLockedUntil - Date.now()) / 60000)\<close> in the message
  of a locked account.
\<close>

definition minutes_left :: "user \<Rightarrow> int \<Rightarrow> string" where
  "minutes_left u now =
     (case accountLockedUntil u of
        Some t \<Rightarrow> js_toString (Num (- ((now - t) div 60000)))
      | None \<Rightarrow> ''NaN'')"

text \<open>
  \<open>findByCredentials\<close> ends with the user or with the message of the error it throws; a
  rejected save that it waits for is thrown on.
\<close>

definition findByCredentials ::
  "libs \<Rightarrow> int \<Rightarrow> string \<Rightarrow> string \<Rightarrow> store \<Rightarrow> (string + user) \<times> store" where
  "findByCredentials L now em pw s =
     (case findOne (\<lambda>u. email u = set_email L em) s of
        None \<Rightarrow> (Inl ''Invalid email or password'', s)
      | Some u \<Rightarrow>
          (if \<not> matchPassword L u pw
           then
             (case incrementLoginAttempts L now u s of
                (True, s1) \<Rightarrow> (Inl ''Invalid email or password'', s1)
              | (False, s1) \<Rightarrow> (Inl ''MongoServerError'', s1))
           else
             (case isAccountLocked L now u s of
                (True, u1, s1) \<Rightarrow>
                  (Inl (''Account locked. Try again in '' @ minutes_left u1 now @ '' minutes.''), s1)
              | (False, u1, s1) \<Rightarrow>
                  (if 0 < attempts_of u1
                   then
                     (let u2 = u1\<lparr>failedLoginAttempts := Some 0, accountLockedUntil := None\<rparr>
                      in case save L now u2 s1 of
                           (True, d, s2) \<Rightarrow> (Inr d, s2)
                         | (False, _, s2) \<Rightarrow> (Inl ''MongoServerError'', s2))
                   else (Inr u1, s1)))))"

section \<open>Requests and responses\<close>

text \<open>
  A request as the handlers read it. \<open>cookies\<close> and \<open>body\<close> are \<open>None\<close> when
  \<open>req.cookies\<close> or \<open>req.body\<close> is undefined; \<open>param_token\<close> is the \<open>:token\<close> or
  \<open>:resettoken\<close> segment of the path and \<open>req_user\<close> the id of \<open>req.user\<close>.
\<close>

record request =
  authorization :: "string option"
  cookies :: "(string \<times> string) list option"
  accept :: "string option"
  body :: "(string \<times> string) list option"
  param_token :: string
  req_user :: "nat option"

definition cookie :: "request \<Rightarrow> string \<Rightarrow> string option" where
  "cookie req k = (case cookies req of None \<Rightarrow> None | Some cs \<Rightarrow> map_of cs k)"

text \<open>A string read from a request is falsy when it is undefined or empty.\<close>

definition given :: "string option \<Rightarrow> bool" where
  "given x = (case x of None \<Rightarrow> False | Some v \<Rightarrow> v \<noteq> [])"

fun split_on :: "char \<Rightarrow> string \<Rightarrow> string list" where
  "split_on c [] = [[]]"
| "split_on c (x # xs) =
     (if x = c then [] # split_on c xs
      else (case split_on c xs of w # ws \<Rightarrow> (x # w) # ws | [] \<Rightarrow> [[x]]))"

record userData =
  ud_id :: nat
  ud_name :: string
  ud_email :: string
  ud_role :: string
  ud_isEmailVerified :: bool
  ud_isActive :: bool

definition userData_of :: "user \<Rightarrow> userData" where
  "userData_of u =
     \<lparr>ud_id = user_id u, ud_name = name u, ud_email = email u, ud_role = role u,
      ud_isEmailVerified = isEmailVerified u, ud_isActive = isActive u\<rparr>"

datatype cookie_op = SetCookie string string int | ClearCookie string

text \<open>
  \<open>Session a r d\<close> is the body \<open>{success: true, accessToken: a, refreshToken: r, user: d}\<close>.
  A handler ends by answering (\<open>Respond\<close> with the status given to \<open>res.status\<close>), by
  \<open>next(err)\<close>, or by \<open>next()\<close> after attaching a user to the request.
\<close>

datatype body = Session string string userData | Message string

datatype outcome = Respond nat body | NextErr failure | NextOk user

type_synonym result = "cookie_op list \<times> outcome \<times> store"

definition clearBoth :: "cookie_op list" where
  "clearBoth = [ClearCookie ''accessToken'', ClearCookie ''refreshToken'']"

definition unexpired :: "int option \<Rightarrow> int \<Rightarrow> bool" where
  "unexpired e now = (case e of Some t \<Rightarrow> now < t | None \<Rightarrow> False)"

section \<open>The controllers (controllers/authController.js)\<close>

text \<open>
  Every call of the error constructor in this file has the form
  \<open>new ApiError('<text>', <number>)\<close>.
\<close>

definition ctl_error :: "string \<Rightarrow> int \<Rightarrow> outcome" where
  "ctl_error txt n = NextErr (Api (new_ApiError (Str txt) (Num n)))"

text \<open>
  The save that \<open>sendTokenResponse\<close> starts and does not wait for. Its hooks run only after
  the function has gone on to assign \<open>undefined\<close> to \<open>user.password\<close> and to
  \<open>user.refreshToken\<close>: the password then counts as modified, the first hook calls
  \<open>bcrypt.hash\<close> on \<open>undefined\<close>, which raises, and the save is rejected before anything
  is written. Nobody receives the rejection. (In every caller the document holds its
  password: it was created or assigned there, or selected with \<open>+password\<close>.)
\<close>

definition save_unawaited :: "libs \<Rightarrow> int \<Rightarrow> user \<Rightarrow> store \<Rightarrow> bool \<times> user \<times> store" where
  "save_unawaited L now u s = (False, u, s)"

text \<open>
  \<open>sendTokenResponse\<close>. The \<open>createdAt\<close> of the answer comes from the timestamps of the
  schema, which are left out of \<open>userData\<close>.
\<close>

definition sendTokenResponse :: "libs \<Rightarrow> int \<Rightarrow> string \<Rightarrow> user \<Rightarrow> nat \<Rightarrow> store \<Rightarrow> result" where
  "sendTokenResponse L now rnd u code s =
     (let accessToken = getSignedJwtToken L now u;
          (newToken, u') = getRefreshToken L rnd now u;
          s' = store_after (save_unawaited L now u' s)
      in ([SetCookie ''accessToken'' accessToken (15 * 60 * 1000),
           SetCookie ''refreshToken'' newToken days7],
          Respond code (Session accessToken newToken (userData_of u)), s'))"

text \<open>
  The document that \<open>findOne({ email }).select('+password +refreshToken')\<close> loads: the
  paths declared with \<open>select: false\<close> are absent unless the projection names them.
  \<open>login\<close> reads \<open>user.failedLoginAttempts\<close> from this document, so that
  \<open>(user.failedLoginAttempts || 0) + 1\<close> is 1; a save writes the assigned paths onto the
  stored document.
\<close>

definition select_login :: "user \<Rightarrow> user" where
  "select_login u =
     u\<lparr>failedLoginAttempts := None, accountLockedUntil := None, refreshTokenExpire := None\<rparr>"

definition login :: "libs \<Rightarrow> int \<Rightarrow> string \<Rightarrow> request \<Rightarrow> store \<Rightarrow> result" where
  "login L now rnd req s =
     (case body req of
        None \<Rightarrow> ([], ctl_error ''Login failed. Please try again.'' 500, s)
      | Some b \<Rightarrow>
     (case (map_of b ''email'', map_of b ''password'') of
        (Some em, Some pw) \<Rightarrow>
          (if em = [] \<or> pw = []
           then ([], ctl_error ''Please provide an email and password'' 400, s)
           else
             (case findOne (\<lambda>u. email u = set_email L em) s of
                None \<Rightarrow> ([], ctl_error ''Invalid credentials'' 401, s)
              | Some u \<Rightarrow>
                  (if \<not> matchPassword L u pw
                   then
                     (case save L now
                             (u\<lparr>failedLoginAttempts := Some (attempts_of (select_login u) + 1)\<rparr>) s of
                        (True, _, s') \<Rightarrow> ([], ctl_error ''Invalid credentials'' 401, s')
                      | (False, _, s') \<Rightarrow> ([], ctl_error ''Login failed. Please try again.'' 500, s'))
                   else if \<not> isActive u
                   then ([], ctl_error ''Your account has been deactivated'' 401, s)
                   else if \<not> isEmailVerified u
                   then ([], ctl_error ''Please verify your email before logging in'' 401, s)
                   else
                     (let u' = u\<lparr>failedLoginAttempts := Some 0, lastLogin := Some now\<rparr>
                      in case save L now u' s of
                           (True, d, s') \<Rightarrow> sendTokenResponse L now rnd d 200 s'
                         | (False, _, s') \<Rightarrow>
                             ([], ctl_error ''Login failed. Please try again.'' 500, s')))))
      | _ \<Rightarrow> ([], ctl_error ''Please provide an email and password'' 400, s)))"

text \<open>
  \<open>refreshToken\<close> of the controller. The token is \<open>req.body.refreshToken || req.cookies?.refreshToken\<close>;
  everything is inside one \<open>try\<close>, whose \<open>catch\<close> clears both cookies and passes
  \<open>new ApiError('Failed to refresh token', 500)\<close> on.
\<close>

definition refreshToken_failed :: "store \<Rightarrow> result" where
  "refreshToken_failed s = (clearBoth, ctl_error ''Failed to refresh token'' 500, s)"

definition refreshToken_controller :: "libs \<Rightarrow> int \<Rightarrow> string \<Rightarrow> request \<Rightarrow> store \<Rightarrow> result" where
  "refreshToken_controller L now rnd req s =
     (case body req of
        None \<Rightarrow> refreshToken_failed s
      | Some b \<Rightarrow>
          (let presented = (if given (map_of b ''refreshToken'') then map_of b ''refreshToken''
                            else cookie req ''refreshToken'')
           in case presented of
                None \<Rightarrow> ([], ctl_error ''No refresh token provided'' 400, s)
              | Some t \<Rightarrow>
                  (if t = [] then ([], ctl_error ''No refresh token provided'' 400, s)
                   else
                     (case controller_crypto L of
                        None \<Rightarrow> refreshToken_failed s
                      | Some h \<Rightarrow>
                          (case findOne (\<lambda>u. refreshToken u = Some (h t)
                                               \<and> unexpired (refreshTokenExpire u) now) s of
                             None \<Rightarrow>
                               (clearBoth, ctl_error ''Invalid or expired refresh token'' 401, s)
                           | Some u \<Rightarrow>
                               (let accessToken = getSignedJwtToken L now u;
                                    (newToken, u') = getRefreshToken L rnd now u
                                in case save L now u' s of
                                     (False, _, s') \<Rightarrow> refreshToken_failed s'
                                   | (True, _, s') \<Rightarrow>
                                       ([SetCookie ''accessToken'' accessToken (15 * 60 * 1000),
                                         SetCookie ''refreshToken'' newToken days7],
                                        Respond 200 (Session accessToken newToken (userData_of u)),
                                        s')))))))"

text \<open>
  \<open>User.create\<close>: the setters of the name and email paths are applied to the given values,
  the document gets the defaults of the schema and a fresh id, is validated (required and
  well-formed name, email and password, a role of the enum) and written; the unique index
  on the email refuses a second document with a stored email. A failure is an exception
  that \<open>register\<close> forwards.
\<close>

definition fresh_id :: "store \<Rightarrow> nat" where
  "fresh_id s = Suc (fold max (map user_id (users s)) 0)"

definition new_user :: "nat \<Rightarrow> string \<Rightarrow> string \<Rightarrow> string \<Rightarrow> string \<Rightarrow> user" where
  "new_user i nm em pw rl =
     \<lparr>user_id = i, name = nm, email = em, role = rl, password = pw,
      passwordChangedAt = None, passwordResetToken = None, passwordResetExpires = None,
      emailVerificationToken = None, emailVerificationExpires = None,
      isEmailVerified = False, isActive = True, lastLogin = None,
      failedLoginAttempts = Some 0, accountLockedUntil = None,
      refreshToken = None, refreshTokenExpire = None,
      resetPasswordToken = None, resetPasswordExpire = None\<rparr>"

definition create :: "libs \<Rightarrow> int \<Rightarrow> string option \<Rightarrow> string option \<Rightarrow> string option \<Rightarrow> string
                      \<Rightarrow> store \<Rightarrow> (string + user) \<times> store" where
  "create L now nm em pw rl s =
     (case (nm, em, pw) of
        (Some n, Some e, Some p) \<Rightarrow>
          (let n' = set_name L n; e' = set_email L e
           in if \<not> paths_valid L n' e' p \<or> rl \<notin> set role_enum
              then (Inl ''ValidationError'', s)
              else if findOne (\<lambda>u. email u = e') s \<noteq> None
              then (Inl ''MongoServerError'', s)
              else
                (case save L now (new_user (fresh_id s) n' e' p rl) s of
                   (True, d, s') \<Rightarrow> (Inr d, s')
                 | (False, _, s') \<Rightarrow> (Inl ''MongoServerError'', s')))
      | _ \<Rightarrow> (Inl ''ValidationError'', s))"

text \<open>
  \<open>register\<close>: the role is \<open>req.body.role || 'user'\<close>. \<open>rnd1\<close> and \<open>rnd2\<close> are the random
  bytes of the verification token and of the refresh token; \<open>mail_ok\<close> says whether
  \<open>sendEmail\<close> succeeds.
\<close>

definition register :: "libs \<Rightarrow> int \<Rightarrow> string \<Rightarrow> string \<Rightarrow> bool \<Rightarrow> request \<Rightarrow> store \<Rightarrow> result" where
  "register L now rnd1 rnd2 mail_ok req s =
     (case body req of
        None \<Rightarrow> ([], NextErr (Thrown ''TypeError''), s)
      | Some b \<Rightarrow>
          (let rl = (case map_of b ''role'' of
                       Some r \<Rightarrow> (if r = [] then ''user'' else r)
                     | None \<Rightarrow> ''user'')
           in case create L now (map_of b ''name'') (map_of b ''email'') (map_of b ''password'') rl s of
                (Inl e, s1) \<Rightarrow> ([], NextErr (Thrown e), s1)
              | (Inr u, s1) \<Rightarrow>
                  (let (verificationToken, u1) = getEmailVerificationToken L rnd1 u
                   in case save L now u1 s1 of
                        (False, _, s2) \<Rightarrow> ([], NextErr (Thrown ''MongoServerError''), s2)
                      | (True, d, s2) \<Rightarrow>
                          (if mail_ok then sendTokenResponse L now rnd2 d 201 s2
                           else
                             (let u2 = d\<lparr>emailVerificationToken := None\<rparr>
                              in case save L now u2 s2 of
                                   (False, _, s3) \<Rightarrow> ([], NextErr (Thrown ''MongoServerError''), s3)
                                 | (True, _, s3) \<Rightarrow>
                                     ([], ctl_error ''Email could not be sent'' 500, s3))))))"

text \<open>
  \<open>forgotPassword\<close>. The second component of the result is the reset token that the
  mail carries, when a mail is sent.
\<close>

definition forgotPassword ::
  "libs \<Rightarrow> int \<Rightarrow> string \<Rightarrow> bool \<Rightarrow> request \<Rightarrow> store \<Rightarrow> outcome \<times> string option \<times> store" where
  "forgotPassword L now rnd mail_ok req s =
     (case body req of
        None \<Rightarrow> (NextErr (Thrown ''TypeError''), None, s)
      | Some b \<Rightarrow>
          (case findOne (\<lambda>u. Some (email u) = map_option (set_email L) (map_of b ''email'')) s of
             None \<Rightarrow> (ctl_error ''There is no user with that email'' 404, None, s)
           | Some u \<Rightarrow>
               (let (resetToken, u1) = getResetPasswordToken L rnd now u
                in case save L now u1 s of
                     (False, _, s1) \<Rightarrow> (NextErr (Thrown ''MongoServerError''), None, s1)
                   | (True, d, s1) \<Rightarrow>
                       (if mail_ok then (Respond 200 (Message ''Email sent''), Some resetToken, s1)
                        else
                          (let u2 = d\<lparr>resetPasswordToken := None, resetPasswordExpire := None\<rparr>
                           in case save L now u2 s1 of
                                (False, _, s2) \<Rightarrow> (NextErr (Thrown ''MongoServerError''), None, s2)
                              | (True, _, s2) \<Rightarrow>
                                  (ctl_error ''Email could not be sent'' 500, None, s2))))))"

text \<open>
  \<open>resetPassword\<close> hashes \<open>req.params.resettoken\<close> through the \<open>crypto\<close> of the controller
  and looks for a stored document by \<open>resetPasswordToken\<close> and \<open>resetPasswordExpire\<close>.
  Its \<open>user.save()\<close> validates the document.
\<close>

definition resetPassword :: "libs \<Rightarrow> int \<Rightarrow> string \<Rightarrow> request \<Rightarrow> store \<Rightarrow> result" where
  "resetPassword L now rnd req s =
     (case controller_crypto L of
        None \<Rightarrow> ([], NextErr (Thrown ''TypeError''), s)
      | Some h \<Rightarrow>
          (case findOne (\<lambda>u. resetPasswordToken u = Some (h (param_token req))
                               \<and> unexpired (resetPasswordExpire u) now) s of
             None \<Rightarrow> ([], ctl_error ''Invalid token'' 400, s)
           | Some u \<Rightarrow>
               (case body req of
                  None \<Rightarrow> ([], NextErr (Thrown ''TypeError''), s)
                | Some b \<Rightarrow>
                    (case map_of b ''password'' of
                       None \<Rightarrow> ([], NextErr (Thrown ''ValidationError''), s)
                     | Some pw \<Rightarrow>
                         (if \<not> paths_valid L (name u) (email u) pw
                          then ([], NextErr (Thrown ''ValidationError''), s)
                          else
                            (let u1 = u\<lparr>password := pw, resetPasswordToken := None,
                                         resetPasswordExpire := None\<rparr>
                             in case save L now u1 s of
                                  (False, _, s1) \<Rightarrow> ([], NextErr (Thrown ''MongoServerError''), s1)
                                | (True, d, s1) \<Rightarrow> sendTokenResponse L now rnd d 200 s1))))))"

text \<open>\<open>updatePassword\<close>, behind \<open>protect\<close>: \<open>req.user.id\<close> names the document.\<close>

definition updatePassword :: "libs \<Rightarrow> int \<Rightarrow> string \<Rightarrow> request \<Rightarrow> store \<Rightarrow> result" where
  "updatePassword L now rnd req s =
     (case (req_user req, body req) of
        (Some i, Some b) \<Rightarrow>
          (case findById i s of
             None \<Rightarrow> ([], NextErr (Thrown ''TypeError''), s)
           | Some u \<Rightarrow>
               (case map_of b ''currentPassword'' of
                  None \<Rightarrow> ([], NextErr (Thrown ''Error''), s)
                | Some cur \<Rightarrow>
                    (if \<not> matchPassword L u cur
                     then ([], ctl_error ''Password is incorrect'' 401, s)
                     else
                       (case map_of b ''newPassword'' of
                          None \<Rightarrow> ([], NextErr (Thrown ''ValidationError''), s)
                        | Some pw \<Rightarrow>
                            (if \<not> paths_valid L (name u) (email u) pw
                             then ([], NextErr (Thrown ''ValidationError''), s)
                             else
                               (let u1 = u\<lparr>password := pw\<rparr>
                                in case save L now u1 s of
                                     (False, _, s1) \<Rightarrow> ([], NextErr (Thrown ''MongoServerError''), s1)
                                   | (True, d, s1) \<Rightarrow> sendTokenResponse L now rnd d 200 s1))))))
      | _ \<Rightarrow> ([], NextErr (Thrown ''TypeError''), s))"

section \<open>The request gate (middleware/auth.js)\<close>

text \<open>Every call of the error constructor in this file has the form \<open>new ApiError(<number>, '<text>')\<close>.\<close>

definition mw_error :: "int \<Rightarrow> string \<Rightarrow> outcome" where
  "mw_error n txt = NextErr (Api (new_ApiError (Num n) (Str txt)))"

text \<open>
  \<open>refreshToken\<close> of the middleware reads the token from the cookie only. After the
  rotation it answers by itself when \<open>req.get('accept') === 'application/json'\<close>, and
  attaches the user and calls \<open>next()\<close> otherwise.
\<close>

definition refreshToken_middleware :: "libs \<Rightarrow> int \<Rightarrow> string \<Rightarrow> request \<Rightarrow> store \<Rightarrow> result" where
  "refreshToken_middleware L now rnd req s =
     (case cookie req ''refreshToken'' of
        None \<Rightarrow> (clearBoth, mw_error 401 ''No refresh token provided'', s)
      | Some t \<Rightarrow>
          (if t = [] then (clearBoth, mw_error 401 ''No refresh token provided'', s)
           else
             (case findOne (\<lambda>u. refreshToken u = Some (sha256hex L t)
                                  \<and> unexpired (refreshTokenExpire u) now) s of
                None \<Rightarrow> (clearBoth, mw_error 401 ''Invalid or expired refresh token'', s)
              | Some u \<Rightarrow>
                  (let accessToken = getSignedJwtToken L now u;
                       (newToken, u1) = getRefreshToken L rnd now u;
                       u2 = u1\<lparr>refreshToken := Some (sha256hex L newToken),
                                refreshTokenExpire := Some (now + days7)\<rparr>
                   in case save L now u2 s of
                        (False, _, s') \<Rightarrow> (clearBoth, mw_error 401 ''Invalid refresh token'', s')
                      | (True, d, s') \<Rightarrow>
                          (let cs = [SetCookie ''refreshToken'' newToken days7,
                                     SetCookie ''accessToken'' accessToken (15 * 60 * 1000)]
                           in if accept req = Some ''application/json''
                              then (cs, Respond 200 (Session accessToken newToken (userData_of d)), s')
                              else (cs, NextOk d, s'))))))"

text \<open>
  The token that \<open>protect\<close> extracts: the second piece of an \<open>Authorization\<close> header that
  starts with \<open>Bearer\<close>, else the \<open>accessToken\<close> cookie.
\<close>

definition extract_token :: "request \<Rightarrow> string option" where
  "extract_token req =
     (case authorization req of
        Some h \<Rightarrow>
          (if prefix ''Bearer'' h
           then (case split_on CHR '' '' h of _ # t # _ \<Rightarrow> Some t | _ \<Rightarrow> None)
           else (if given (cookie req ''accessToken'') then cookie req ''accessToken'' else None))
      | None \<Rightarrow> (if given (cookie req ''accessToken'') then cookie req ''accessToken'' else None))"

definition protect :: "libs \<Rightarrow> int \<Rightarrow> string \<Rightarrow> request \<Rightarrow> store \<Rightarrow> result" where
  "protect L now rnd req s =
     (case extract_token req of
        None \<Rightarrow>
          (if given (cookie req ''refreshToken'') then refreshToken_middleware L now rnd req s
           else ([], mw_error 401 ''Not authorized to access this route - No token'', s))
      | Some token \<Rightarrow>
          (if token = []
           then (if given (cookie req ''refreshToken'') then refreshToken_middleware L now rnd req s
                 else ([], mw_error 401 ''Not authorized to access this route - No token'', s))
           else
             (case jwt_verify L token now of
                Decoded i iat \<Rightarrow>
                  (case findById i s of
                     None \<Rightarrow> (clearBoth, mw_error 401 ''User not found with this token'', s)
                   | Some u \<Rightarrow>
                       (if \<not> isActive u then ([], mw_error 401 ''User account is deactivated'', s)
                        else if (case passwordChangedAt u of
                                   Some c \<Rightarrow> iat < parseInt_seconds c
                                 | None \<Rightarrow> False)
                        then ([], mw_error 401 ''User recently changed password. Please log in again'', s)
                        else ([], NextOk u, s)))
              | TokenExpiredError \<Rightarrow>
                  (if given (cookie req ''refreshToken'') then refreshToken_middleware L now rnd req s
                   else (clearBoth, mw_error 401 ''Not authorized, invalid token'', s))
              | JsonWebTokenError \<Rightarrow> (clearBoth, mw_error 401 ''Not authorized, invalid token'', s))))"

section \<open>The router (routes/auth.js)\<close>

text \<open>
  \<open>/register\<close>, \<open>/login\<close>, \<open>/verify-email\<close>, \<open>/forgotpassword\<close> and \<open>/resetpassword\<close> are
  mounted before \<open>router.use(protect)\<close>; \<open>/me\<close>, \<open>/updatedetails\<close>, \<open>/updatepassword\<close>,
  \<open>/logout\<close> and \<open>/refresh-token\<close> after it, so that a request for one of these reaches its
  controller only when \<open>protect\<close> has called \<open>next()\<close>. \<open>rnd1\<close> serves a rotation inside
  \<open>protect\<close>, \<open>rnd2\<close> the controller.
\<close>

definition behind_protect ::
  "(request \<Rightarrow> store \<Rightarrow> result) \<Rightarrow> libs \<Rightarrow> int \<Rightarrow> string \<Rightarrow> request \<Rightarrow> store \<Rightarrow> result" where
  "behind_protect handler L now rnd1 req s =
     (case protect L now rnd1 req s of
        (cs, NextOk u, s') \<Rightarrow>
          (case handler (req\<lparr>req_user := Some (user_id u)\<rparr>) s' of
             (cs', out, s'') \<Rightarrow> (cs @ cs', out, s''))
      | r \<Rightarrow> r)"

definition post_refresh_token :: "libs \<Rightarrow> int \<Rightarrow> string \<Rightarrow> string \<Rightarrow> request \<Rightarrow> store \<Rightarrow> result" where
  "post_refresh_token L now rnd1 rnd2 req s =
     behind_protect (refreshToken_controller L now rnd2) L now rnd1 req s"

definition put_updatepassword :: "libs \<Rightarrow> int \<Rightarrow> string \<Rightarrow> string \<Rightarrow> request \<Rightarrow> store \<Rightarrow> result" where
  "put_updatepassword L now rnd1 rnd2 req s =
     behind_protect (updatePassword L now rnd2) L now rnd1 req s"

section \<open>The client (client/src/lib/axios.ts, client/src/contexts/AuthContext.tsx)\<close>

text \<open>
  A request configuration with its \<open>_retry\<close> mark. The server is a parameter: its reply to
  the \<open>k\<close>-th request that the client sends is a status together with whether the body has
  a \<open>data\<close> property, or no reply at all. The client state is the list of the targets
  requested so far and whether \<open>window.location.href\<close> has been set to \<open>/login\<close>.
\<close>

record config =
  url :: string
  retry :: bool

datatype reply = Answer nat bool | NoAnswer

type_synonym server = "nat \<Rightarrow> config \<Rightarrow> reply"

record cstate =
  sent :: "string list"
  redirected :: bool

text \<open>
  A promise settles fulfilled with a body, or rejected with the error of the transport
  (\<open>error.config\<close> and \<open>error.response?.status\<close>) or with the plain object
  \<open>{status, message, data}\<close> that the first interceptor builds.
\<close>

datatype rejection = AxiosError config "nat option" | Plain nat

datatype settled = Fulfilled bool | Rejected rejection

type_synonym client = "cstate \<Rightarrow> config \<Rightarrow> (settled \<times> cstate) option"

fun str_includes :: "string \<Rightarrow> string \<Rightarrow> bool" where
  "str_includes [] pat = (pat = [])"
| "str_includes (c # cs) pat = (prefix pat (c # cs) \<or> str_includes cs pat)"

definition refresh_config :: config where
  "refresh_config = \<lparr>url = ''/auth/refresh-token'', retry = False\<rparr>"

text \<open>
  The rejection handler of the interceptor of lib/axios.ts, on the error of the transport.
  \<open>call\<close> is \<open>apiClient\<close> itself, which the handler uses for the refresh and for the replay.
  The replay is returned from inside the \<open>try\<close> without \<open>await\<close>, so its rejection does
  not reach the \<open>catch\<close>.
\<close>

definition interceptor1 :: "client \<Rightarrow> cstate \<Rightarrow> config \<Rightarrow> nat option \<Rightarrow> (settled \<times> cstate) option" where
  "interceptor1 call st cfg resp =
     (if resp = Some 401 \<and> \<not> retry cfg
      then
        (if str_includes (url cfg) ''/auth/''
         then Some (Rejected (AxiosError cfg resp), st)
         else
           (case call st refresh_config of
              None \<Rightarrow> None
            | Some (Rejected refreshError, st1) \<Rightarrow>
                Some (Rejected refreshError, st1\<lparr>redirected := True\<rparr>)
            | Some (Fulfilled _, st1) \<Rightarrow> call st1 (cfg\<lparr>retry := True\<rparr>)))
      else
        (case resp of
           Some n \<Rightarrow> Some (Rejected (Plain n), st)
         | None \<Rightarrow> Some (Rejected (Plain 0), st)))"

text \<open>
  \<open>refreshToken\<close> of the provider: it posts to the refresh endpoint and reads \<open>user\<close> out of
  \<open>response.data\<close>, where \<open>response\<close> is what the promise of \<open>apiClient.post\<close> gives, inside
  a \<open>try\<close> whose \<open>catch\<close> returns \<open>false\<close>.
\<close>

definition provider_refreshToken :: "client \<Rightarrow> cstate \<Rightarrow> (bool \<times> cstate) option" where
  "provider_refreshToken call st =
     (case call st refresh_config of
        None \<Rightarrow> None
      | Some (Fulfilled has_data, st1) \<Rightarrow> Some (has_data, st1)
      | Some (Rejected _, st1) \<Rightarrow> Some (False, st1))"

text \<open>
  The rejection handler of the interceptor that the provider installs; it receives what the
  first handler rejects with.
\<close>

definition interceptor2 :: "client \<Rightarrow> cstate \<Rightarrow> rejection \<Rightarrow> (settled \<times> cstate) option" where
  "interceptor2 call st err =
     (case err of
        AxiosError cfg (Some n) \<Rightarrow>
          (if n \<noteq> 401 \<or> retry cfg then Some (Rejected err, st)
           else
             (case provider_refreshToken call st of
                None \<Rightarrow> None
              | Some (True, st1) \<Rightarrow> call st1 (cfg\<lparr>retry := True\<rparr>)
              | Some (False, st1) \<Rightarrow>
                  Some (Rejected (AxiosError (cfg\<lparr>retry := True\<rparr>) (Some n)), st1)))
      | _ \<Rightarrow> Some (Rejected err, st))"

text \<open>
  One request through the transport and the two interceptors, in the order of their
  registration. The fulfilment handlers give the body (\<open>response.data\<close>) and pass it on.
\<close>

definition request_chain :: "client \<Rightarrow> server \<Rightarrow> cstate \<Rightarrow> config \<Rightarrow> (settled \<times> cstate) option" where
  "request_chain call srv st cfg =
     (let st1 = st\<lparr>sent := sent st @ [url cfg]\<rparr>;
          resp = (case srv (length (sent st)) cfg of
                    Answer n d \<Rightarrow> (if 200 \<le> n \<and> n < 300 then Inl d else Inr (Some n))
                  | NoAnswer \<Rightarrow> Inr None)
      in case resp of
           Inl d \<Rightarrow> Some (Fulfilled d, st1)
         | Inr r \<Rightarrow>
             (case interceptor1 call st1 cfg r of
                None \<Rightarrow> None
              | Some (Fulfilled d, st2) \<Rightarrow> Some (Fulfilled d, st2)
              | Some (Rejected err, st2) \<Rightarrow> interceptor2 call st2 err))"

text \<open>
  \<open>apiClient\<close>, with a bound on the depth of the requests that the handlers of one request
  start in turn: \<open>None\<close> when the promise has not settled within that depth.
\<close>

primrec apiClient :: "nat \<Rightarrow> server \<Rightarrow> cstate \<Rightarrow> config \<Rightarrow> (settled \<times> cstate) option" where
  "apiClient 0 srv st cfg = None"
| "apiClient (Suc n) srv st cfg = request_chain (apiClient n srv) srv st cfg"

section \<open>A concrete instance\<close>

text \<open>
  Stand-ins for the libraries (the setters trim blanks and lower the letters A to Z), a
  collection with one user whose refresh token is \<open>tok0\<close>, and requests. The only access token that verifies is \<open>jwt\<close>, issued to user 1 at second 5
  and expiring at second 905.
\<close>

definition demo_hash :: "string \<Rightarrow> string" where
  "demo_hash x = CHR ''#'' # x"

definition demo_trim :: "string \<Rightarrow> string" where
  "demo_trim x = rev (dropWhile (\<lambda>c. c = CHR '' '') (rev (dropWhile (\<lambda>c. c = CHR '' '') x)))"

definition demo_lower :: "string \<Rightarrow> string" where
  "demo_lower x =
     map (\<lambda>c. case map_of (zip ''ABCDEFGHIJKLMNOPQRSTUVWXYZ'' ''abcdefghijklmnopqrstuvwxyz'') c of
                 Some d \<Rightarrow> d
               | None \<Rightarrow> c) x"

definition demo_libs :: libs where
  "demo_libs =
     \<lparr>sha256hex = demo_hash,
      controller_crypto = Some demo_hash,
      jwt_sign = (\<lambda>i r t. ''jwt''),
      jwt_verify = (\<lambda>tok t. if tok = ''jwt''
                               then (if t div 1000 < 905 then Decoded 1 5 else TokenExpiredError)
                               else JsonWebTokenError),
      bcrypt_hash = (\<lambda>p. CHR ''$'' # p),
      bcrypt_compare = (\<lambda>c h. h = CHR ''$'' # c),
      paths_valid = (\<lambda>n e p. n \<noteq> [] \<and> e \<noteq> [] \<and> 8 \<le> length p),
      set_email = (\<lambda>e. demo_lower (demo_trim e)),
      set_name = demo_trim\<rparr>"

text \<open>The same libraries with no usable \<open>crypto\<close> in the controller, as the file is written.\<close>

definition run_libs :: libs where
  "run_libs = demo_libs\<lparr>controller_crypto := None\<rparr>"

definition alice :: user where
  "alice = (new_user 1 ''Alice'' ''alice@example.com'' ''$Passw0rd!'' ''user'')
             \<lparr>isEmailVerified := True,
              refreshToken := Some ''#tok0'', refreshTokenExpire := Some 700000000\<rparr>"

definition demo_store :: store where
  "demo_store = \<lparr>users = [alice], faults = []\<rparr>"

definition demo_request :: request where
  "demo_request = \<lparr>authorization = None, cookies = None, accept = None, body = None,
                    param_token = [], req_user = None\<rparr>"

definition login_request :: "string \<Rightarrow> string \<Rightarrow> request" where
  "login_request em pw = demo_request\<lparr>body := Some [(''email'', em), (''password'', pw)]\<rparr>"

definition refresh_in_body :: request where
  "refresh_in_body = demo_request\<lparr>body := Some [(''refreshToken'', ''tok0'')]\<rparr>"

definition refresh_in_cookie :: "string option \<Rightarrow> request" where
  "refresh_in_cookie acc =
     demo_request\<lparr>cookies := Some [(''refreshToken'', ''tok0'')], accept := acc\<rparr>"

definition bearer_request :: "string \<Rightarrow> request" where
  "bearer_request tok = demo_request\<lparr>authorization := Some (''Bearer '' @ tok)\<rparr>"

definition change_request :: "string \<Rightarrow> string \<Rightarrow> request" where
  "change_request cur new =
     demo_request\<lparr>req_user := Some 1,
                  body := Some [(''currentPassword'', cur), (''newPassword'', new)]\<rparr>"

definition forgot_request :: "string \<Rightarrow> request" where
  "forgot_request em = demo_request\<lparr>body := Some [(''email'', em)]\<rparr>"

definition reset_request :: "string \<Rightarrow> string \<Rightarrow> request" where
  "reset_request tok pw = demo_request\<lparr>param_token := tok, body := Some [(''password'', pw)]\<rparr>"

definition register_request :: "string \<Rightarrow> string \<Rightarrow> string \<Rightarrow> string option \<Rightarrow> request" where
  "register_request nm em pw rl =
     demo_request\<lparr>body := Some ([(''name'', nm), (''email'', em), (''password'', pw)]
                                 @ (case rl of Some r \<Rightarrow> [(''role'', r)] | None \<Rightarrow> []))\<rparr>"

text \<open>
  The store after a run of login attempts with one request, made at the given instants.
\<close>

fun after_logins :: "libs \<Rightarrow> int list \<Rightarrow> request \<Rightarrow> store \<Rightarrow> store" where
  "after_logins L [] req s = s"
| "after_logins L (t # ts) req s = after_logins L ts req (snd (snd (login L t [] req s)))"

text \<open>No stored document has a \<open>resetPasswordToken\<close> field.\<close>

definition no_reset_field :: "store \<Rightarrow> bool" where
  "no_reset_field s = list_all (\<lambda>u. resetPasswordToken u = None) (users s)"

text \<open>
  Two servers: one that answers 401 to everything, and one that does so for the first five
  requests and answers 429 from then on, as a rate limiter of five requests would.
\<close>

definition always_401 :: server where
  "always_401 = (\<lambda>k cfg. Answer 401 False)"

definition limited_401 :: server where
  "limited_401 = (\<lambda>k cfg. if k < 5 then Answer 401 False else Answer 429 False)"

definition posts_config :: config where
  "posts_config = \<lparr>url = ''/posts'', retry = False\<rparr>"

definition idle :: cstate where
  "idle = \<lparr>sent = [], redirected = False\<rparr>"

section \<open>Auxiliary facts\<close>

lemma demo_setters:
  "demo_lower (demo_trim ''alice@example.com'') = ''alice@example.com''"
  "demo_lower (demo_trim ''mallory@example.com'') = ''mallory@example.com''"
  "demo_lower (demo_trim ''ALICE@EXAMPLE.COM'') = ''alice@example.com''"
  "demo_trim ''Mallory'' = ''Mallory''"
  by (simp_all add: demo_lower_def demo_trim_def)

lemmas demo_defs =
  demo_request_def demo_store_def demo_libs_def run_libs_def demo_hash_def demo_setters
  alice_def new_user_def
  findOne_def findById_def matchPassword_def save_def save_unawaited_def store_after_def pre_save_def
  schema_paths_def put_def attempts_of_def ctl_error_def mw_error_def new_ApiError_def
  js_toString_def digits.simps digit_char_def Let_def cookie_def given_def unexpired_def
  getRefreshToken_def getSignedJwtToken_def userData_of_def days7_def clearBoth_def

lemma find_map_replace:
  "find P xs = Some y \<Longrightarrow> P d \<Longrightarrow> find P (map (\<lambda>x. if P x then d else x) xs) = Some d"
  by (induction xs) auto

lemma find_append_last:
  "find P xs = None \<Longrightarrow> P d \<Longrightarrow> find P (xs @ [d]) = Some d"
  by (induction xs) auto

lemma find_put:
  "find (\<lambda>x. user_id x = user_id d) (put d us) = Some d"
proof (cases "find (\<lambda>x. user_id x = user_id d) us")
  case None
  then show ?thesis by (simp add: put_def find_append_last)
next
  case (Some y)
  then show ?thesis
    using find_map_replace [of "\<lambda>x. user_id x = user_id d" us y d] by (simp add: put_def)
qed

lemma find_None_put:
  assumes "\<not> P d" "\<forall>x \<in> set us. P x \<longrightarrow> user_id x = user_id d"
    "find (\<lambda>x. user_id x = user_id d) us \<noteq> None"
  shows "find P (put d us) = None"
  using assms by (auto simp: put_def find_None_iff split: option.splits)

lemma findById_id: "findById i s = Some u \<Longrightarrow> user_id u = i"
  by (auto simp: findById_def findOne_def find_Some_iff)

lemma pre_save_keeps [simp]:
  "user_id (pre_save L now old u) = user_id u"
  "role (pre_save L now old u) = role u"
  "email (pre_save L now old u) = email u"
  "refreshToken (pre_save L now old u) = refreshToken u"
  by (simp_all add: pre_save_def Let_def)

lemma schema_paths_keeps [simp]:
  "user_id (schema_paths old u) = user_id u"
  "role (schema_paths old u) = role u"
  "email (schema_paths old u) = email u"
  "refreshToken (schema_paths old u) = refreshToken u"
  "password (schema_paths old u) = password u"
  "passwordChangedAt (schema_paths old u) = passwordChangedAt u"
  by (simp_all add: schema_paths_def split: option.splits)

lemma pre_save_changed:
  assumes "password old \<noteq> pw"
  shows "passwordChangedAt (pre_save L now (Some old) (old\<lparr>password := pw\<rparr>)) = Some (now - 1000)"
  using assms by (simp add: pre_save_def Let_def)

lemma pre_save_same_password:
  assumes "password old = password u"
  shows "passwordChangedAt (pre_save L now (Some old) u) = passwordChangedAt u"
  using assms by (simp add: pre_save_def Let_def)

text \<open>A write that is accepted leaves the saved document under its id.\<close>

lemma save_ok_lookup:
  assumes "save L now u s = (True, d, s')"
  shows "d = pre_save L now (findById (user_id u) s) u
         \<and> findById (user_id u) s' = Some (schema_paths (findById (user_id u) s) d)"
proof -
  let ?old = "findById (user_id u) s"
  let ?d = "pre_save L now ?old u"
  have "find (\<lambda>x. user_id x = user_id u) (put (schema_paths ?old ?d) (users s))
          = Some (schema_paths ?old ?d)"
    using find_put [of "schema_paths ?old ?d" "users s"] by simp
  then show ?thesis
    using assms
    by (auto simp: save_def Let_def findById_def findOne_def split: list.splits if_splits)
qed

lemma save_failed_users:
  assumes "save L now u s = (False, d, s')"
  shows "users s' = users s"
  using assms by (auto simp: save_def Let_def split: list.splits if_splits)

lemma save_unfaulted:
  assumes "faults s = []"
  shows "\<exists>d s'. save L now u s = (True, d, s') \<and> faults s' = []"
  using assms by (simp add: save_def Let_def)

lemma save_ok_role:
  assumes "save L now u s = (True, d, s')"
  shows "\<exists>st. findById (user_id u) s' = Some st \<and> role st = role u \<and> email st = email u
          \<and> role d = role u \<and> email d = email u \<and> user_id d = user_id u"
  using save_ok_lookup [OF assms] by simp

lemma ctl_error_statusCode:
  "ctl_error txt n = NextErr (Api e) \<Longrightarrow> statusCode e = Str txt"
  by (auto simp: ctl_error_def new_ApiError_def)

lemma sendTokenResponse_responds:
  "sendTokenResponse L now rnd u code s = (cs, out, s') \<Longrightarrow> \<exists>b. out = Respond code b"
  by (auto simp: sendTokenResponse_def Let_def split: prod.splits)

lemma sendTokenResponse_unchanged:
  "sendTokenResponse L now rnd u code s = (cs, out, s') \<Longrightarrow> s' = s"
  by (auto simp: sendTokenResponse_def save_unawaited_def store_after_def Let_def
      split: prod.splits)

lemma handler_never_401:
  "statusCode e = Str txt \<Longrightarrow> globalErrorHandler env e \<noteq> Some (Num 401)"
  by (cases env) (auto simp: globalErrorHandler_def Let_def)

section \<open>Rotation of a refresh token\<close>

text \<open>
  At the gate, whose file requires \<open>crypto\<close> and builds its errors with the arguments in the
  order of the constructor: the first presentation of a stored, unexpired token rotates it,
  and a second presentation fails with \<open>statusCode\<close> 401.
\<close>

lemma gate_rotation_single_use:
  assumes ck: "cookie req ''refreshToken'' = Some t" "t \<noteq> []"
    and found: "findOne (\<lambda>v. refreshToken v = Some (sha256hex L t)
                             \<and> unexpired (refreshTokenExpire v) now) s = Some u"
    and uniq: "\<forall>v \<in> set (users s). refreshToken v = Some (sha256hex L t) \<longrightarrow> user_id v = user_id u"
    and fresh: "sha256hex L rnd \<noteq> sha256hex L t"
    and wr: "faults s = []"
  shows "\<exists>cs out s1. refreshToken_middleware L now rnd req s = (cs, out, s1)
           \<and> ((\<exists>d. out = NextOk d) \<or> (\<exists>a d. out = Respond 200 (Session a rnd d)))
           \<and> refreshToken_middleware L now2 rnd2 req s1
                = (clearBoth,
                   NextErr (Api \<lparr>statusCode = Num 401,
                                  message = ''Invalid or expired refresh token'',
                                  status = ''fail'', isOperational = True\<rparr>),
                   s1)"
proof -
  let ?u' = "u\<lparr>refreshToken := Some (sha256hex L rnd), refreshTokenExpire := Some (now + days7)\<rparr>"
  let ?old = "findById (user_id u) s"
  let ?d = "schema_paths ?old (pre_save L now ?old ?u')"
  let ?s1 = "s\<lparr>users := put ?d (users s)\<rparr>"
  have "u \<in> set (users s)"
    using found by (auto simp: findOne_def find_Some_iff)
  then have ex: "find (\<lambda>x. user_id x = user_id u) (users s) \<noteq> None"
    by (auto simp: find_None_iff)
  have first: "\<exists>cs out. refreshToken_middleware L now rnd req s = (cs, out, ?s1)
      \<and> ((\<exists>d. out = NextOk d) \<or> (\<exists>a d. out = Respond 200 (Session a rnd d)))"
    using ck found wr
    by (auto simp: refreshToken_middleware_def getRefreshToken_def save_def Let_def)
  have none: "findOne (\<lambda>v. refreshToken v = Some (sha256hex L t)
                           \<and> unexpired (refreshTokenExpire v) now2) ?s1 = None"
    unfolding findOne_def
    using find_None_put [of "\<lambda>v. refreshToken v = Some (sha256hex L t)
                                  \<and> unexpired (refreshTokenExpire v) now2" ?d "users s"]
      fresh uniq ex by simp
  have second: "refreshToken_middleware L now2 rnd2 req ?s1 =
      (clearBoth, mw_error 401 ''Invalid or expired refresh token'', ?s1)"
    using ck none by (simp add: refreshToken_middleware_def Let_def)
  show ?thesis
    using first second
    by (auto simp: mw_error_def new_ApiError_def js_toString_def digits.simps digit_char_def)
qed

text \<open>
  What the controller would do if its \<open>crypto\<close> hashed: the first presentation of a stored,
  unexpired token would answer 200 and store the hash of the new token, and the second
  would be refused with an error whose \<open>statusCode\<close> is the text and whose message is "401".
\<close>

lemma rotation_with_crypto:
  assumes crypto: "controller_crypto L = Some h"
    and req: "body req = Some b"
      "(if given (map_of b ''refreshToken'') then map_of b ''refreshToken''
        else cookie req ''refreshToken'') = Some t" "t \<noteq> []"
    and found: "findOne (\<lambda>v. refreshToken v = Some (h t)
                             \<and> unexpired (refreshTokenExpire v) now) s = Some u"
    and uniq: "\<forall>v \<in> set (users s). refreshToken v = Some (h t) \<longrightarrow> user_id v = user_id u"
    and fresh: "sha256hex L rnd \<noteq> h t"
    and wr: "faults s = []"
  shows "\<exists>cs a s1. refreshToken_controller L now rnd req s
                      = (cs, Respond 200 (Session a rnd (userData_of u)), s1)
           \<and> (\<exists>d. findById (user_id u) s1 = Some d \<and> refreshToken d = Some (sha256hex L rnd))
           \<and> refreshToken_controller L now2 rnd2 req s1
                = (clearBoth,
                   NextErr (Api \<lparr>statusCode = Str ''Invalid or expired refresh token'',
                                  message = ''401'', status = ''error'', isOperational = True\<rparr>),
                   s1)"
proof -
  let ?u' = "u\<lparr>refreshToken := Some (sha256hex L rnd), refreshTokenExpire := Some (now + days7)\<rparr>"
  let ?old = "findById (user_id u) s"
  let ?d = "schema_paths ?old (pre_save L now ?old ?u')"
  let ?s1 = "s\<lparr>users := put ?d (users s)\<rparr>"
  have "u \<in> set (users s)"
    using found by (auto simp: findOne_def find_Some_iff)
  then have ex: "find (\<lambda>x. user_id x = user_id u) (users s) \<noteq> None"
    by (auto simp: find_None_iff)
  have first: "refreshToken_controller L now rnd req s =
      ([SetCookie ''accessToken'' (getSignedJwtToken L now u) (15 * 60 * 1000),
        SetCookie ''refreshToken'' rnd days7],
       Respond 200 (Session (getSignedJwtToken L now u) rnd (userData_of u)), ?s1)"
    using crypto req found wr
    by (simp add: refreshToken_controller_def getRefreshToken_def save_def Let_def)
  have stored: "findById (user_id u) ?s1 = Some ?d"
    using find_put [of ?d "users s"] by (simp add: findById_def findOne_def)
  have none: "findOne (\<lambda>v. refreshToken v = Some (h t)
                           \<and> unexpired (refreshTokenExpire v) now2) ?s1 = None"
    unfolding findOne_def
    using find_None_put [of "\<lambda>v. refreshToken v = Some (h t)
                                  \<and> unexpired (refreshTokenExpire v) now2" ?d "users s"]
      fresh uniq ex by simp
  have second: "refreshToken_controller L now2 rnd2 req ?s1 =
      (clearBoth, ctl_error ''Invalid or expired refresh token'' 401, ?s1)"
    using crypto req none by (simp add: refreshToken_controller_def Let_def)
  show ?thesis
    using first stored second
    by (simp add: ctl_error_def new_ApiError_def js_toString_def digits.simps digit_char_def)
qed

text \<open>
  Through the route, a request that passes the gate with a valid access token and presents
  the stored refresh token in its body.
\<close>

lemma refresh_route_with_access_token:
  "post_refresh_token run_libs 5000 ''tok1'' ''tok2''
      ((bearer_request ''jwt'')\<lparr>body := Some [(''refreshToken'', ''tok0'')]\<rparr>) demo_store =
     ([ClearCookie ''accessToken'', ClearCookie ''refreshToken''],
      NextErr (Api \<lparr>statusCode = Str ''Failed to refresh token'', message = ''500'',
                     status = ''error'', isOperational = True\<rparr>),
      demo_store)"
  by (simp add: post_refresh_token_def behind_protect_def protect_def extract_token_def
      bearer_request_def refreshToken_controller_def refreshToken_failed_def
      parseInt_seconds_def demo_defs)

text \<open>
  Claim C1. authController.js uses \<open>crypto\<close> without requiring it, so hashing the presented
  token raises inside the \<open>try\<close> of the controller's \<open>refreshToken\<close>. Every presentation of a
  refresh token to the controller, the first presentation of a stored and unexpired one
  included, ends in the \<open>catch\<close>: both cookies are cleared, the error "Failed to refresh
  token" is passed on (its \<open>statusCode\<close> is that text, its message "500"), and the collection
  is left as it was, so that no new pair is issued and no new hash is stored.
\<close>

theorem refresh_controller_raises:
  assumes crypto: "controller_crypto L = None"
    and req: "body req = Some b"
      "(if given (map_of b ''refreshToken'') then map_of b ''refreshToken''
        else cookie req ''refreshToken'') = Some t" "t \<noteq> []"
  shows "refreshToken_controller L now rnd req s =
           (clearBoth,
            NextErr (Api \<lparr>statusCode = Str ''Failed to refresh token'', message = ''500'',
                           status = ''error'', isOperational = True\<rparr>),
            s)"
  using assms
  by (simp add: refreshToken_controller_def refreshToken_failed_def ctl_error_def new_ApiError_def
      js_toString_def digits.simps digit_char_def Let_def)

theorem refresh_controller_raises_witness:
  "findOne (\<lambda>v. refreshToken v = Some (sha256hex run_libs ''tok0'')
                  \<and> unexpired (refreshTokenExpire v) 5000) demo_store = Some alice
   \<and> refreshToken_controller run_libs 5000 ''tok1'' refresh_in_body demo_store =
       (clearBoth,
        NextErr (Api \<lparr>statusCode = Str ''Failed to refresh token'', message = ''500'',
                       status = ''error'', isOperational = True\<rparr>),
        demo_store)"
proof -
  have 1: "controller_crypto run_libs = None" by (simp add: run_libs_def)
  have 2: "body refresh_in_body = Some [(''refreshToken'', ''tok0'')]"
    by (simp add: refresh_in_body_def demo_request_def)
  have 3: "(if given (map_of [(''refreshToken'', ''tok0'')] ''refreshToken'')
            then map_of [(''refreshToken'', ''tok0'')] ''refreshToken''
            else cookie refresh_in_body ''refreshToken'') = Some ''tok0''"
    by (simp add: given_def)
  have 4: "findOne (\<lambda>v. refreshToken v = Some (sha256hex run_libs ''tok0'')
                         \<and> unexpired (refreshTokenExpire v) 5000) demo_store = Some alice"
    by (simp add: demo_defs)
  show ?thesis
    using refresh_controller_raises [OF 1 2 3, of 5000 "''tok1''" demo_store] 4 by simp
qed

section \<open>Failed logins and the lock\<close>

lemma failed_login_step:
  assumes "users s = [u]" "faults s = []" "email u = set_email L em" "em \<noteq> []" "wrong \<noteq> []"
    "\<not> bcrypt_compare L wrong (password u)"
  shows "snd (snd (login L now rnd (login_request em wrong) s)) =
           s\<lparr>users := [u\<lparr>failedLoginAttempts := Some 1\<rparr>]\<rparr>"
  using assms
  by (simp add: login_def login_request_def demo_request_def select_login_def findOne_def
      findById_def matchPassword_def save_def pre_save_def schema_paths_def put_def
      attempts_of_def Let_def)

lemma after_failed_logins:
  assumes "users s = [u]" "faults s = []" "email u = set_email L em" "em \<noteq> []" "wrong \<noteq> []"
    "\<not> bcrypt_compare L wrong (password u)"
  shows "\<exists>n. after_logins L ts (login_request em wrong) s =
           s\<lparr>users := [u\<lparr>failedLoginAttempts := n\<rparr>]\<rparr>"
  using assms
proof (induction ts arbitrary: s u)
  case Nil
  then have "s = s\<lparr>users := [u\<lparr>failedLoginAttempts := failedLoginAttempts u\<rparr>]\<rparr>" by simp
  then show ?case by (metis after_logins.simps(1))
next
  case (Cons t ts)
  let ?s1 = "s\<lparr>users := [u\<lparr>failedLoginAttempts := Some 1\<rparr>]\<rparr>"
  have step: "snd (snd (login L t [] (login_request em wrong) s)) = ?s1"
    using Cons.prems by (rule failed_login_step)
  have "\<exists>n. after_logins L ts (login_request em wrong) ?s1 =
           ?s1\<lparr>users := [(u\<lparr>failedLoginAttempts := Some 1\<rparr>)\<lparr>failedLoginAttempts := n\<rparr>]\<rparr>"
    by (rule Cons.IH) (use Cons.prems in simp_all)
  then show ?case by (simp add: step)
qed

text \<open>
  The model's own lockout, which \<open>login\<close> does not call: the fifth failure sets the lock
  for thirty minutes, and \<open>findByCredentials\<close> refuses a correct password while it holds.
\<close>

lemma incrementLoginAttempts_locks:
  assumes "users s = [u]" "faults s = []" "\<not> locked_now u now" "attempts_of u = 4"
  shows "users (snd (incrementLoginAttempts L now u s)) =
           [u\<lparr>failedLoginAttempts := Some 5, accountLockedUntil := Some (now + 30 * 60 * 1000)\<rparr>]"
  using assms
  by (simp add: incrementLoginAttempts_def save_def store_after_def pre_save_def schema_paths_def
      findById_def findOne_def put_def attempts_of_def Let_def)

lemma findByCredentials_locked:
  assumes "findOne (\<lambda>u. email u = set_email L em) s = Some u" "matchPassword L u pw"
    "locked_now u now"
  shows "findByCredentials L now em pw s =
           (Inl (''Account locked. Try again in '' @ minutes_left u now @ '' minutes.''), s)"
  using assms by (simp add: findByCredentials_def isAccountLocked_def)

text \<open>
  Claim C2. In a collection that holds one active, verified user, after any run of login
  attempts with a wrong password (five of them, for instance), made at any instants, a
  login with the right password at any instant answers 200: \<open>login\<close> never sets nor reads
  \<open>accountLockedUntil\<close>, which is left as it was, and it sets the counter to 0.
\<close>

theorem login_ignores_lockout:
  assumes "users s = [u]" "faults s = []" "email u = set_email L em" "em \<noteq> []" "wrong \<noteq> []" "pw \<noteq> []"
    "\<not> bcrypt_compare L wrong (password u)" "bcrypt_compare L pw (password u)"
    "isActive u" "isEmailVerified u"
  shows "\<exists>cs b s'. login L now rnd (login_request em pw)
                     (after_logins L ts (login_request em wrong) s) = (cs, Respond 200 b, s')
                  \<and> map failedLoginAttempts (users s') = [Some 0]
                  \<and> map accountLockedUntil (users s') = [accountLockedUntil u]"
proof -
  obtain n where a: "after_logins L ts (login_request em wrong) s =
           s\<lparr>users := [u\<lparr>failedLoginAttempts := n\<rparr>]\<rparr>"
    using after_failed_logins [OF assms(1-5) assms(7)] by blast
  show ?thesis
    unfolding a using assms
    by (simp add: login_def login_request_def demo_request_def findOne_def
      findById_def matchPassword_def save_def pre_save_def schema_paths_def put_def
      sendTokenResponse_def getRefreshToken_def save_unawaited_def store_after_def Let_def)
qed

theorem login_ignores_lockout_witness:
  "\<exists>cs b s'. login demo_libs 6000 ''tok1'' (login_request ''alice@example.com'' ''Passw0rd!'')
                 (after_logins demo_libs [1000, 2000, 3000, 4000, 5000]
                    (login_request ''alice@example.com'' ''guess'') demo_store)
               = (cs, Respond 200 b, s')
      \<and> map failedLoginAttempts (users s') = [Some 0]
      \<and> map accountLockedUntil (users s') = [None]"
proof -
  have 1: "users demo_store = [alice]" "faults demo_store = []"
    "email alice = set_email demo_libs ''alice@example.com''" "accountLockedUntil alice = None"
    by (simp_all add: demo_defs)
  have 2: "\<not> bcrypt_compare demo_libs ''guess'' (password alice)"
    "bcrypt_compare demo_libs ''Passw0rd!'' (password alice)"
    "isActive alice" "isEmailVerified alice"
    by (simp_all add: demo_defs)
  show ?thesis
    using login_ignores_lockout [where L = demo_libs and wrong = "''guess''" and now = 6000
        and rnd = "''tok1''" and ts = "[1000, 2000, 3000, 4000, 5000]", OF 1(1,2,3) _ _ _ 2]
    by (simp add: 1(4))
qed

section \<open>The refresh route behind the gate\<close>

text \<open>
  The controller reads a refresh token from the body: called by itself on such a request,
  with a \<open>crypto\<close> that hashes, it would answer 200.
\<close>

lemma controller_alone_accepts:
  "refreshToken_controller demo_libs 5000 ''tok1'' refresh_in_body demo_store =
     ([SetCookie ''accessToken'' ''jwt'' 900000, SetCookie ''refreshToken'' ''tok1'' 604800000],
      Respond 200 (Session ''jwt'' ''tok1'' (userData_of alice)),
      \<lparr>users = [alice\<lparr>refreshToken := Some ''#tok1'', refreshTokenExpire := Some 604805000\<rparr>],
       faults = []\<rparr>)"
  by (simp add: refreshToken_controller_def refresh_in_body_def demo_defs)

text \<open>
  With the refresh cookie and no access token, a request that does not accept
  \<open>application/json\<close> passes the gate, which rotates the token; the controller then fails
  on it, as it does on every token.
\<close>

lemma refresh_route_after_gate_rotation:
  "post_refresh_token run_libs 5000 ''tok1'' ''tok2''
      ((refresh_in_cookie (Some ''text/html''))\<lparr>body := Some []\<rparr>) demo_store =
     ([SetCookie ''refreshToken'' ''tok1'' 604800000, SetCookie ''accessToken'' ''jwt'' 900000,
       ClearCookie ''accessToken'', ClearCookie ''refreshToken''],
      NextErr (Api \<lparr>statusCode = Str ''Failed to refresh token'', message = ''500'',
                     status = ''error'', isOperational = True\<rparr>),
      \<lparr>users = [alice\<lparr>refreshToken := Some ''#tok1'', refreshTokenExpire := Some 604805000\<rparr>],
       faults = []\<rparr>)"
  by (simp add: post_refresh_token_def behind_protect_def protect_def extract_token_def
      refreshToken_middleware_def refreshToken_controller_def refreshToken_failed_def
      refresh_in_cookie_def demo_defs)

text \<open>
  Claim C3. A request for \<open>POST /auth/refresh-token\<close> that carries no access token and no
  refresh cookie is answered by \<open>protect\<close> with the error 401 "No token", whatever its body
  holds: the controller, which would read a refresh token from the body, is not reached.
\<close>

theorem refresh_route_needs_gate:
  assumes "extract_token req = None" "\<not> given (cookie req ''refreshToken'')"
  shows "post_refresh_token L now rnd1 rnd2 req s =
           ([], mw_error 401 ''Not authorized to access this route - No token'', s)"
  using assms by (simp add: post_refresh_token_def behind_protect_def protect_def mw_error_def)

theorem refresh_route_needs_gate_witness:
  "extract_token refresh_in_body = None
   \<and> \<not> given (cookie refresh_in_body ''refreshToken'')
   \<and> post_refresh_token demo_libs 5000 ''tok1'' ''tok2'' refresh_in_body demo_store =
       ([], NextErr (Api \<lparr>statusCode = Num 401,
                           message = ''Not authorized to access this route - No token'',
                           status = ''fail'', isOperational = True\<rparr>), demo_store)"
proof -
  have a: "extract_token refresh_in_body = None"
    by (simp add: extract_token_def refresh_in_body_def demo_defs)
  have b: "\<not> given (cookie refresh_in_body ''refreshToken'')"
    by (simp add: refresh_in_body_def demo_defs)
  show ?thesis
    using refresh_route_needs_gate [OF a b, of demo_libs 5000 "''tok1''" "''tok2''" demo_store] a b
    by (simp add: mw_error_def new_ApiError_def js_toString_def digits.simps digit_char_def)
qed

section \<open>The client's retries\<close>

text \<open>
  The first interceptor alone leaves a 401 of the refresh endpoint as it is. With the
  second one installed, such a 401 starts another refresh, whose own 401 starts the next:
  against a server that answers 401 to everything, a request never settles.
\<close>

lemma first_interceptor_stops:
  "interceptor1 call st \<lparr>url = ''/auth/refresh-token'', retry = False\<rparr> (Some 401) =
     Some (Rejected (AxiosError \<lparr>url = ''/auth/refresh-token'', retry = False\<rparr> (Some 401)), st)"
  by (simp add: interceptor1_def)

lemma refresh_never_settles:
  "apiClient n (\<lambda>k cfg. Answer 401 False) st \<lparr>url = ''/auth/refresh-token'', retry = False\<rparr> = None"
proof (induction n arbitrary: st)
  case 0
  show ?case by simp
next
  case (Suc n)
  show ?case
    by (simp add: request_chain_def interceptor1_def interceptor2_def provider_refreshToken_def
        refresh_config_def Suc.IH Let_def)
qed

lemma unauthorized_server_never_settles:
  "apiClient n always_401 st posts_config = None"
proof (cases n)
  case 0
  then show ?thesis by simp
next
  case (Suc m)
  then show ?thesis
    by (simp add: request_chain_def interceptor1_def always_401_def posts_config_def
        refresh_config_def refresh_never_settles Let_def)
qed

text \<open>
  Claim C4. One request for \<open>/posts\<close> against a server that answers 401 to the first five
  requests and 429 afterwards: the client sends five requests to the refresh endpoint
  before the promise is rejected, each 401 of the refresh endpoint having started the next
  refresh.
\<close>

theorem one_request_five_refreshes:
  "apiClient 7 limited_401 idle posts_config =
     Some (Rejected (AxiosError \<lparr>url = ''/auth/refresh-token'', retry = True\<rparr> (Some 401)),
           \<lparr>sent = [''/posts'', ''/auth/refresh-token'', ''/auth/refresh-token'',
                    ''/auth/refresh-token'', ''/auth/refresh-token'', ''/auth/refresh-token''],
            redirected = True\<rparr>)"
  by (simp add: eval_nat_numeral request_chain_def interceptor1_def interceptor2_def
      provider_refreshToken_def limited_401_def posts_config_def idle_def refresh_config_def Let_def)

section \<open>Reporting tokens and persisting them\<close>

text \<open>The refresh controller waits for its write: a rejected write ends in an error.\<close>

lemma refresh_write_fails:
  assumes "faults s = True # fs" "refreshToken_controller L now rnd req s = (cs, out, s')"
  shows "\<exists>e. out = NextErr e"
  using assms
  by (auto simp: refreshToken_controller_def refreshToken_failed_def ctl_error_def save_def Let_def
      split: option.splits if_splits prod.splits bool.splits)

lemma login_reports_unstored_token:
  "login demo_libs 5000 ''tok1'' (login_request ''alice@example.com'' ''Passw0rd!'') demo_store =
     ([SetCookie ''accessToken'' ''jwt'' 900000, SetCookie ''refreshToken'' ''tok1'' 604800000],
      Respond 200 (Session ''jwt'' ''tok1'' (userData_of alice)),
      \<lparr>users = [alice\<lparr>lastLogin := Some 5000\<rparr>], faults = []\<rparr>)"
  by (simp add: login_def login_request_def sendTokenResponse_def demo_defs)

text \<open>
  Claim C5. \<open>sendTokenResponse\<close> sets both cookies and answers with the given status and the
  new refresh token, and leaves the collection exactly as it found it: the save that it
  starts without waiting does not store the hash of that token, and its rejection reaches
  nobody. This holds for every collection, whatever the persistence engine would do.
\<close>

theorem sendTokenResponse_unpersisted:
  "sendTokenResponse L now rnd u code s =
     ([SetCookie ''accessToken'' (getSignedJwtToken L now u) (15 * 60 * 1000),
       SetCookie ''refreshToken'' rnd days7],
      Respond code (Session (getSignedJwtToken L now u) rnd (userData_of u)),
      s)"
  by (simp add: sendTokenResponse_def getRefreshToken_def save_unawaited_def store_after_def Let_def)

theorem sendTokenResponse_unpersisted_witness:
  "sendTokenResponse demo_libs 5000 ''tok1'' alice 200 demo_store =
     ([SetCookie ''accessToken'' ''jwt'' 900000, SetCookie ''refreshToken'' ''tok1'' 604800000],
      Respond 200 (Session ''jwt'' ''tok1'' (userData_of alice)), demo_store)
   \<and> map refreshToken (users demo_store) = [Some ''#tok0'']
   \<and> login demo_libs 5000 ''tok1'' (login_request ''alice@example.com'' ''Passw0rd!'') demo_store =
       ([SetCookie ''accessToken'' ''jwt'' 900000, SetCookie ''refreshToken'' ''tok1'' 604800000],
        Respond 200 (Session ''jwt'' ''tok1'' (userData_of alice)),
        \<lparr>users = [alice\<lparr>lastLogin := Some 5000\<rparr>], faults = []\<rparr>)
   \<and> refreshToken (alice\<lparr>lastLogin := Some 5000\<rparr>) = Some ''#tok0''"
proof -
  have 3: "getSignedJwtToken demo_libs 5000 alice = ''jwt''" "days7 = 604800000"
    by (simp_all add: demo_defs)
  have 4: "map refreshToken (users demo_store) = [Some ''#tok0'']"
    "refreshToken (alice\<lparr>lastLogin := Some 5000\<rparr>) = Some ''#tok0''"
    by (simp_all add: demo_defs)
  show ?thesis
    using sendTokenResponse_unpersisted [of demo_libs 5000 "''tok1''" alice 200 demo_store]
      login_reports_unstored_token
    by (simp add: 3 4)
qed

section \<open>Login failures and their status code\<close>

lemma login_wrong_password:
  "login demo_libs 5000 ''r1'' (login_request ''alice@example.com'' ''guess'') demo_store =
     ([], NextErr (Api \<lparr>statusCode = Str ''Invalid credentials'', message = ''401'',
                         status = ''error'', isOperational = True\<rparr>),
      \<lparr>users = [alice\<lparr>failedLoginAttempts := Some 1\<rparr>], faults = []\<rparr>)"
  by (simp add: login_def login_request_def select_login_def demo_defs)

text \<open>
  Claim C6. Whenever \<open>login\<close> ends with an \<open>ApiError\<close> (bad credentials, inactive account,
  unverified email, or any other of its failures), the \<open>statusCode\<close> of that error is the
  text of the message, not a number, and the global error handler never passes 401 to
  \<open>res.status\<close> for it: the controller gives the constructor its arguments in the order
  (message, code) while the constructor takes (code, message).
\<close>

theorem login_failure_statusCode:
  assumes "login L now rnd req s = (cs, NextErr (Api e), s')"
  shows "(\<exists>txt. statusCode e = Str txt) \<and> globalErrorHandler env e \<noteq> Some (Num 401)"
proof -
  from assms have "\<exists>txt. statusCode e = Str txt"
    by (auto simp: login_def Let_def dest!: ctl_error_statusCode sendTokenResponse_responds
        split: option.splits prod.splits if_splits bool.splits)
  then show ?thesis by (auto dest: handler_never_401)
qed

theorem login_failure_statusCode_witness:
  "login demo_libs 5000 ''r1'' (login_request ''alice@example.com'' ''guess'') demo_store =
     ([], NextErr (Api \<lparr>statusCode = Str ''Invalid credentials'', message = ''401'',
                         status = ''error'', isOperational = True\<rparr>),
      \<lparr>users = [alice\<lparr>failedLoginAttempts := Some 1\<rparr>], faults = []\<rparr>)
   \<and> globalErrorHandler Production
        \<lparr>statusCode = Str ''Invalid credentials'', message = ''401'',
         status = ''error'', isOperational = True\<rparr> \<noteq> Some (Num 401)"
  using login_failure_statusCode [OF login_wrong_password, of Production]
  by (simp add: login_wrong_password)

section \<open>Renewal at the gate\<close>

text \<open>
  Claim C7, as stated, at a request that accepts \<open>application/json\<close>: with no access token
  and the refresh cookie of the stored token, \<open>protect\<close> rotates the token and then answers
  200 with the new session itself; \<open>next()\<close> is not called.
\<close>

theorem gate_renewal_json_counterexample:
  "protect demo_libs 5000 ''tok1'' (refresh_in_cookie (Some ''application/json'')) demo_store =
     ([SetCookie ''refreshToken'' ''tok1'' 604800000, SetCookie ''accessToken'' ''jwt'' 900000],
      Respond 200 (Session ''jwt'' ''tok1'' (userData_of alice)),
      \<lparr>users = [alice\<lparr>refreshToken := Some ''#tok1'', refreshTokenExpire := Some 604805000\<rparr>],
       faults = []\<rparr>)"
  by (simp add: protect_def extract_token_def refreshToken_middleware_def
      refresh_in_cookie_def demo_defs)

text \<open>
  The same for every such request: with the \<open>Accept\<close> header \<open>application/json\<close> the gate
  answers 200 with the new session after the rotation.
\<close>

lemma gate_renewal_json_answers:
  assumes tok: "extract_token req = None \<or> extract_token req = Some []
                \<or> (\<exists>t. extract_token req = Some t \<and> jwt_verify L t now = TokenExpiredError)"
    and ck: "cookie req ''refreshToken'' = Some r" "r \<noteq> []"
    and found: "findOne (\<lambda>u. refreshToken u = Some (sha256hex L r)
                             \<and> unexpired (refreshTokenExpire u) now) s = Some u"
    and wr: "faults s = []"
    and acc: "accept req = Some ''application/json''"
  shows "\<exists>cs d s'. protect L now rnd req s
                      = (cs, Respond 200 (Session (getSignedJwtToken L now u) rnd d), s')
           \<and> ud_id d = user_id u"
proof -
  have mw: "\<exists>cs d s'. refreshToken_middleware L now rnd req s
                      = (cs, Respond 200 (Session (getSignedJwtToken L now u) rnd d), s')
           \<and> ud_id d = user_id u"
    using ck found wr acc
    by (simp add: refreshToken_middleware_def getRefreshToken_def save_def userData_of_def Let_def)
  have g: "given (cookie req ''refreshToken'')" using ck by (simp add: given_def)
  from tok show ?thesis
  proof (elim disjE exE conjE)
    assume "extract_token req = None"
    then show ?thesis using mw g by (simp add: protect_def)
  next
    assume "extract_token req = Some []"
    then show ?thesis using mw g by (simp add: protect_def)
  next
    fix t assume t: "extract_token req = Some t" "jwt_verify L t now = TokenExpiredError"
    show ?thesis
    proof (cases "t = []")
      case True
      then show ?thesis using mw g t by (simp add: protect_def)
    next
      case False
      then show ?thesis using mw g t by (simp add: protect_def)
    qed
  qed
qed

text \<open>
  Claim C7, amended. When the access token is absent or expired, the refresh cookie holds a
  stored, unexpired refresh token, the write of the rotation is accepted and the request's
  \<open>Accept\<close> header is not exactly \<open>application/json\<close>, \<open>protect\<close> calls \<open>next()\<close> with the
  user of that token attached, now carrying the hash of the new refresh token.
\<close>

theorem gate_renewal_proceeds:
  assumes tok: "extract_token req = None \<or> extract_token req = Some []
                \<or> (\<exists>t. extract_token req = Some t \<and> jwt_verify L t now = TokenExpiredError)"
    and ck: "cookie req ''refreshToken'' = Some r" "r \<noteq> []"
    and found: "findOne (\<lambda>u. refreshToken u = Some (sha256hex L r)
                             \<and> unexpired (refreshTokenExpire u) now) s = Some u"
    and wr: "faults s = []"
    and acc: "accept req \<noteq> Some ''application/json''"
  shows "\<exists>cs d s'. protect L now rnd req s = (cs, NextOk d, s')
           \<and> user_id d = user_id u \<and> refreshToken d = Some (sha256hex L rnd)"
proof -
  have mw: "\<exists>cs d s'. refreshToken_middleware L now rnd req s = (cs, NextOk d, s')
           \<and> user_id d = user_id u \<and> refreshToken d = Some (sha256hex L rnd)"
    using ck found wr acc
    by (simp add: refreshToken_middleware_def getRefreshToken_def save_def Let_def)
  have g: "given (cookie req ''refreshToken'')" using ck by (simp add: given_def)
  from tok show ?thesis
  proof (elim disjE exE conjE)
    assume "extract_token req = None"
    then show ?thesis using mw g by (simp add: protect_def)
  next
    assume "extract_token req = Some []"
    then show ?thesis using mw g by (simp add: protect_def)
  next
    fix t assume t: "extract_token req = Some t" "jwt_verify L t now = TokenExpiredError"
    show ?thesis
    proof (cases "t = []")
      case True
      then show ?thesis using mw g t by (simp add: protect_def)
    next
      case False
      then show ?thesis using mw g t by (simp add: protect_def)
    qed
  qed
qed

theorem gate_renewal_proceeds_witness:
  "\<exists>cs d s'. protect demo_libs 5000 ''tok1'' (refresh_in_cookie (Some ''text/html'')) demo_store
               = (cs, NextOk d, s')
           \<and> user_id d = 1 \<and> refreshToken d = Some ''#tok1''"
proof -
  have 1: "extract_token (refresh_in_cookie (Some ''text/html'')) = None"
    by (simp add: extract_token_def refresh_in_cookie_def demo_defs)
  have 2: "cookie (refresh_in_cookie (Some ''text/html'')) ''refreshToken'' = Some ''tok0''"
    by (simp add: refresh_in_cookie_def demo_defs)
  have 3: "findOne (\<lambda>u. refreshToken u = Some (sha256hex demo_libs ''tok0'')
                             \<and> unexpired (refreshTokenExpire u) 5000) demo_store = Some alice"
    by (simp add: demo_defs)
  have 4: "faults demo_store = []" by (simp add: demo_defs)
  have 5: "accept (refresh_in_cookie (Some ''text/html'')) \<noteq> Some ''application/json''"
    by (simp add: refresh_in_cookie_def demo_defs)
  have 6: "user_id alice = 1" by (simp add: demo_defs)
  have 7: "sha256hex demo_libs ''tok1'' = ''#tok1''" by (simp add: demo_defs)
  show ?thesis
    using gate_renewal_proceeds [of "refresh_in_cookie (Some ''text/html'')" demo_libs 5000
        "''tok0''" demo_store alice "''tok1''", OF _ 2 _ 3 4 5] 1
    by (simp add: 6 7)
qed

section \<open>Access tokens and a change of password\<close>

text \<open>After \<open>updatePassword\<close> at \<open>tc\<close> the stored \<open>passwordChangedAt\<close> is \<open>tc - 1000\<close>.\<close>

lemma updatePassword_changedAt:
  assumes upd: "updatePassword L tc rnd creq s0 = (cs, Respond code b, s)"
    and who: "req_user creq = Some i" "findById i s0 = Some old"
    and new: "body creq = Some bd" "map_of bd ''newPassword'' = Some pw" "password old \<noteq> pw"
  shows "\<exists>d. findById i s = Some d \<and> passwordChangedAt d = Some (tc - 1000)"
proof -
  have idold: "user_id old = i" using who(2) by (rule findById_id)
  let ?u1 = "old\<lparr>password := pw\<rparr>"
  obtain ok d1 s1 where sv: "save L tc ?u1 s0 = (ok, d1, s1)" by (cases "save L tc ?u1 s0") auto
  from upd who new sv have ok: "ok"
    and send: "sendTokenResponse L tc rnd d1 200 s1 = (cs, Respond code b, s)"
    by (auto simp: updatePassword_def ctl_error_def Let_def
        split: option.splits if_splits bool.splits)
  from sv ok have "save L tc ?u1 s0 = (True, d1, s1)" by simp
  from save_ok_lookup [OF this] idold who(2)
  have d1: "d1 = pre_save L tc (Some old) ?u1"
    and st: "findById i s1 = Some (schema_paths (Some old) d1)" by simp_all
  have c1: "passwordChangedAt d1 = Some (tc - 1000)" using d1 new(3) by (simp add: pre_save_changed)
  have id1: "user_id d1 = i" using d1 idold by simp
  have "s = s1"
    using send by (simp add: sendTokenResponse_unchanged)
  then show ?thesis
    using st c1 by simp
qed

lemma seconds_gap:
  assumes "0 \<le> ti" "ti + 2000 \<le> tc"
  shows "ti div 1000 < parseInt_seconds (tc - 1000)"
proof -
  have "0 \<le> tc - 1000" using assms by simp
  then have "parseInt_seconds (tc - 1000) = (tc - 1000) div 1000"
    by (simp add: parseInt_seconds_def)
  moreover have "ti div 1000 < (tc - 1000) div 1000"
  proof -
    have "ti + 1000 \<le> tc - 1000" using assms by simp
    then have "(ti + 1000) div 1000 \<le> (tc - 1000) div 1000" by (rule zdiv_mono1) simp
    moreover have "(ti + 1000) div 1000 = ti div 1000 + 1" by simp
    ultimately show ?thesis by simp
  qed
  ultimately show ?thesis by simp
qed

lemma alice_changes_password:
  "updatePassword demo_libs tc ''tok1'' (change_request ''Passw0rd!'' ''N3wPassw0rd!'') demo_store =
     ([SetCookie ''accessToken'' ''jwt'' 900000, SetCookie ''refreshToken'' ''tok1'' 604800000],
      Respond 200 (Session ''jwt'' ''tok1'' (userData_of alice)),
      \<lparr>users = [alice\<lparr>password := ''$N3wPassw0rd!'', passwordChangedAt := Some (tc - 1000)\<rparr>],
       faults = []\<rparr>)"
  by (simp add: updatePassword_def change_request_def sendTokenResponse_def demo_defs)

text \<open>
  Claim C8, as stated, at the access token \<open>jwt\<close> (issued at second 5, that is before
  millisecond 6000) and a change of password at millisecond 6500: at millisecond 7000, long
  before the token's expiry, \<open>protect\<close> accepts the token and attaches the user.
\<close>

theorem password_change_counterexample:
  "protect demo_libs 7000 ''tok2'' (bearer_request ''jwt'')
      (snd (snd (updatePassword demo_libs 6500 ''tok1''
                   (change_request ''Passw0rd!'' ''N3wPassw0rd!'') demo_store))) =
     ([],
      NextOk (alice\<lparr>password := ''$N3wPassw0rd!'', passwordChangedAt := Some 5500\<rparr>),
      \<lparr>users = [alice\<lparr>password := ''$N3wPassw0rd!'', passwordChangedAt := Some 5500\<rparr>],
       faults = []\<rparr>)"
  by (simp add: alice_changes_password)
     (simp add: protect_def extract_token_def bearer_request_def parseInt_seconds_def demo_defs)

text \<open>
  Claim C8, amended. After \<open>updatePassword\<close> has changed the password of a user at instant
  \<open>tc\<close>, every access token of that user that verifies and was issued at an instant
  \<open>ti\<close> with \<open>ti + 2000 \<le> tc\<close> (its \<open>iat\<close> is the second \<open>ti div 1000\<close>) is refused by
  \<open>protect\<close> with an error of status 401, at whatever instant it is presented. The hook
  stores the instant of the change less one second, and the comparison is in whole seconds.
\<close>

theorem password_change_invalidates:
  assumes upd: "updatePassword L tc rnd' creq s0 = (cs, Respond code b, s)"
    and who: "req_user creq = Some i" "findById i s0 = Some old"
    and new: "body creq = Some bd" "map_of bd ''newPassword'' = Some pw" "password old \<noteq> pw"
    and tok: "extract_token req = Some t" "t \<noteq> []"
    and ver: "jwt_verify L t now = Decoded i (ti div 1000)"
    and gap: "0 \<le> ti" "ti + 2000 \<le> tc"
  shows "\<exists>txt. protect L now rnd req s = ([], mw_error 401 txt, s)"
proof -
  obtain d where d: "findById i s = Some d" "passwordChangedAt d = Some (tc - 1000)"
    using updatePassword_changedAt [OF upd who new] by blast
  have "ti div 1000 < parseInt_seconds (tc - 1000)"
    using gap by (rule seconds_gap)
  then show ?thesis
    using tok ver d by (auto simp: protect_def)
qed

theorem password_change_invalidates_witness:
  "protect demo_libs 8000 ''tok2'' (bearer_request ''jwt'')
      \<lparr>users = [alice\<lparr>password := ''$N3wPassw0rd!'', passwordChangedAt := Some 6000\<rparr>],
       faults = []\<rparr> =
     ([],
      NextErr (Api \<lparr>statusCode = Num 401,
                     message = ''User recently changed password. Please log in again'',
                     status = ''fail'', isOperational = True\<rparr>),
      \<lparr>users = [alice\<lparr>password := ''$N3wPassw0rd!'', passwordChangedAt := Some 6000\<rparr>],
       faults = []\<rparr>)"
proof -
  let ?s = "\<lparr>users = [alice\<lparr>password := ''$N3wPassw0rd!'', passwordChangedAt := Some 6000\<rparr>],
             faults = []\<rparr>"
  have 1: "updatePassword demo_libs 7000 ''tok1'' (change_request ''Passw0rd!'' ''N3wPassw0rd!'')
             demo_store =
           ([SetCookie ''accessToken'' ''jwt'' 900000, SetCookie ''refreshToken'' ''tok1'' 604800000],
            Respond 200 (Session ''jwt'' ''tok1'' (userData_of alice)), ?s)"
    using alice_changes_password [of 7000] by simp
  have 2: "req_user (change_request ''Passw0rd!'' ''N3wPassw0rd!'') = Some 1"
    "body (change_request ''Passw0rd!'' ''N3wPassw0rd!'')
       = Some [(''currentPassword'', ''Passw0rd!''), (''newPassword'', ''N3wPassw0rd!'')]"
    by (simp_all add: change_request_def demo_defs)
  have 3: "findById 1 demo_store = Some alice" "password alice \<noteq> ''N3wPassw0rd!''"
    by (simp_all add: demo_defs)
  have 4: "map_of [(''currentPassword'', ''Passw0rd!''), (''newPassword'', ''N3wPassw0rd!'')]
             ''newPassword'' = Some ''N3wPassw0rd!''" by simp
  have 5: "extract_token (bearer_request ''jwt'') = Some ''jwt''"
    by (simp add: extract_token_def bearer_request_def demo_defs)
  have 6: "jwt_verify demo_libs ''jwt'' 8000 = Decoded 1 (5000 div 1000)"
    by (simp add: demo_defs)
  have 7: "\<exists>txt. protect demo_libs 8000 ''tok2'' (bearer_request ''jwt'') ?s
             = ([], mw_error 401 txt, ?s)"
    using password_change_invalidates [OF 1 2(1) 3(1) 2(2) 4 3(2) 5 _ 6] by simp
  have 8: "protect demo_libs 8000 ''tok2'' (bearer_request ''jwt'') ?s =
     ([], mw_error 401 ''User recently changed password. Please log in again'', ?s)"
    by (simp add: protect_def extract_token_def bearer_request_def parseInt_seconds_def demo_defs)
  show ?thesis
    using 7 8 by (simp add: mw_error_def new_ApiError_def js_toString_def digits.simps digit_char_def)
qed

section \<open>The password-reset round trip\<close>

lemma find_in_set: "find P xs = Some x \<Longrightarrow> x \<in> set xs"
  by (auto simp: find_Some_iff)

lemma schema_paths_no_reset:
  assumes "no_reset_field s"
  shows "resetPasswordToken (schema_paths (findById i s) u) = None"
proof (cases "findById i s")
  case None
  then show ?thesis by (simp add: schema_paths_def)
next
  case (Some d)
  then have "d \<in> set (users s)" by (auto simp: findById_def findOne_def dest: find_in_set)
  then have "resetPasswordToken d = None"
    using assms by (simp add: no_reset_field_def list_all_iff)
  then show ?thesis using Some by (simp add: schema_paths_def)
qed

lemma put_no_reset:
  assumes "list_all (\<lambda>u. resetPasswordToken u = None) us" "resetPasswordToken d = None"
  shows "list_all (\<lambda>u. resetPasswordToken u = None) (put d us)"
  using assms by (auto simp: put_def list_all_iff split: option.splits)

lemma save_no_reset:
  assumes "save L now u s = (ok, d, s')" "no_reset_field s"
  shows "no_reset_field s'"
proof -
  have "list_all (\<lambda>u. resetPasswordToken u = None)
          (put (schema_paths (findById (user_id u) s)
                  (pre_save L now (findById (user_id u) s) u)) (users s))"
    using assms(2) schema_paths_no_reset [OF assms(2)]
    by (intro put_no_reset) (simp_all add: no_reset_field_def)
  then show ?thesis
    using assms by (auto simp: save_def Let_def no_reset_field_def split: list.splits if_splits)
qed

lemma forgotPassword_no_reset:
  assumes "forgotPassword L now rnd mail_ok req s = (out, m, s1)" "no_reset_field s"
  shows "no_reset_field s1"
  using assms
  by (auto simp: forgotPassword_def Let_def getResetPasswordToken_def
      split: option.splits prod.splits bool.splits if_splits dest: save_no_reset)

lemma findOne_no_reset:
  assumes "no_reset_field s"
  shows "findOne (\<lambda>u. resetPasswordToken u = Some x \<and> Q u) s = None"
  using assms by (auto simp: findOne_def find_None_iff no_reset_field_def list_all_iff)

text \<open>
  The earlier definition of the method writes paths of the schema, which a save stores.
\<close>

lemma first_definition_is_stored:
  assumes "save L now (snd (getResetPasswordToken_first L rnd now u)) s = (True, d, s')"
  shows "\<exists>st. findById (user_id u) s' = Some st
           \<and> passwordResetToken st = Some (sha256hex L rnd)"
  using save_ok_lookup [OF assms]
  by (auto simp: getResetPasswordToken_first_def pre_save_def schema_paths_def Let_def
      split: option.splits)

lemma forgot_alice:
  "forgotPassword demo_libs 5000 ''rt'' True (forgot_request ''alice@example.com'') demo_store =
     (Respond 200 (Message ''Email sent''), Some ''rt'', demo_store)"
  by (simp add: forgotPassword_def forgot_request_def getResetPasswordToken_def demo_defs)

text \<open>
  Claim C9. In a collection where no stored document has a \<open>resetPasswordToken\<close> field, the
  token that \<open>forgotPassword\<close> mails does not reset anything: \<open>resetPassword\<close> with that
  token, at any instant, ends with the error "Invalid token" (or with the exception of the
  missing \<open>crypto\<close>) and leaves the collection as it is. The hash was assigned to a
  property that is no path of the schema, so the save did not write it.
\<close>

theorem reset_round_trip_fails:
  assumes "no_reset_field s"
    and "forgotPassword L now rnd mail_ok req s = (out, Some t, s1)"
    and "param_token req2 = t"
  shows "resetPassword L now2 rnd2 req2 s1 = ([], ctl_error ''Invalid token'' 400, s1)
         \<or> resetPassword L now2 rnd2 req2 s1 = ([], NextErr (Thrown ''TypeError''), s1)"
proof -
  have "no_reset_field s1" using assms(2,1) by (rule forgotPassword_no_reset)
  then show ?thesis
    by (simp add: resetPassword_def findOne_no_reset split: option.splits)
qed

theorem reset_round_trip_fails_witness:
  "no_reset_field demo_store
   \<and> forgotPassword demo_libs 5000 ''rt'' True (forgot_request ''alice@example.com'') demo_store =
       (Respond 200 (Message ''Email sent''), Some ''rt'', demo_store)
   \<and> resetPassword demo_libs 6000 ''tok1'' (reset_request ''rt'' ''N3wPassw0rd!'') demo_store =
       ([], NextErr (Api \<lparr>statusCode = Str ''Invalid token'', message = ''400'',
                           status = ''error'', isOperational = True\<rparr>), demo_store)
   \<and> resetPassword run_libs 6000 ''tok1'' (reset_request ''rt'' ''N3wPassw0rd!'') demo_store =
       ([], NextErr (Thrown ''TypeError''), demo_store)"
proof -
  have 1: "no_reset_field demo_store" by (simp add: no_reset_field_def demo_defs)
  have 2: "param_token (reset_request ''rt'' ''N3wPassw0rd!'') = ''rt''"
    by (simp add: reset_request_def demo_defs)
  have "resetPassword demo_libs 6000 ''tok1'' (reset_request ''rt'' ''N3wPassw0rd!'') demo_store
         \<noteq> ([], NextErr (Thrown ''TypeError''), demo_store)"
    by (simp add: resetPassword_def reset_request_def demo_defs)
  moreover have "resetPassword run_libs 6000 ''tok1'' (reset_request ''rt'' ''N3wPassw0rd!'')
                   demo_store = ([], NextErr (Thrown ''TypeError''), demo_store)"
    by (simp add: resetPassword_def run_libs_def)
  ultimately show ?thesis
    using reset_round_trip_fails [OF 1 forgot_alice 2, of 6000 "''tok1''"] 1 forgot_alice
    by (simp add: ctl_error_def new_ApiError_def js_toString_def digits.simps digit_char_def)
qed

section \<open>The role of a registered user\<close>

text \<open>
  The email of a registration passes the setters of its path before the unique index sees
  it: one that differs from a stored email by the case of its letters is refused.
\<close>

lemma register_stored_email_refused:
  "register demo_libs 5000 ''v1'' ''tok1'' True
      (register_request ''Mallory'' ''ALICE@EXAMPLE.COM'' ''Passw0rd!'' (Some ''admin'')) demo_store =
     ([], NextErr (Thrown ''MongoServerError''), demo_store)"
  by (simp add: register_def create_def register_request_def role_enum_def demo_defs)

text \<open>
  Claim C10, as stated, at a body that does supply a role, the empty string: the account is
  created with the role \<open>user\<close>.
\<close>

theorem register_empty_role_counterexample:
  "body (register_request ''Mallory'' ''mallory@example.com'' ''Passw0rd!'' (Some [])) =
     Some [(''name'', ''Mallory''), (''email'', ''mallory@example.com''),
           (''password'', ''Passw0rd!''), (''role'', [])]
   \<and> register demo_libs 5000 ''v1'' ''tok1'' True
        (register_request ''Mallory'' ''mallory@example.com'' ''Passw0rd!'' (Some [])) demo_store =
       ([SetCookie ''accessToken'' ''jwt'' 900000, SetCookie ''refreshToken'' ''tok1'' 604800000],
        Respond 201
          (Session ''jwt'' ''tok1''
             \<lparr>ud_id = 2, ud_name = ''Mallory'', ud_email = ''mallory@example.com'',
              ud_role = ''user'', ud_isEmailVerified = False, ud_isActive = True\<rparr>),
        \<lparr>users = [alice,
                   (new_user 2 ''Mallory'' ''mallory@example.com'' ''$Passw0rd!'' ''user'')
                     \<lparr>emailVerificationToken := Some ''#v1'',
                      emailVerificationExpires := Some 86405000\<rparr>],
         faults = []\<rparr>)"
  by (simp add: register_def create_def register_request_def role_enum_def fresh_id_def
      getEmailVerificationToken_def sendTokenResponse_def demo_defs)

text \<open>
  Claim C10, amended. A registration request with a valid name, email and password, whose
  email (as the setters of the schema leave it) is not stored yet, creates the user with the
  role of its body when that role is \<open>user\<close>, \<open>publisher\<close> or \<open>admin\<close>, and with \<open>user\<close>
  when the body has no role or an empty one: the answer is 201 with that role among the
  user fields, and the stored document has it. Any other role is refused by the validation
  and nothing is created. The handler looks at nothing that identifies the caller.
\<close>

theorem register_role:
  assumes bd: "body req = Some b"
    and flds: "map_of b ''name'' = Some nm" "map_of b ''email'' = Some em"
      "map_of b ''password'' = Some pw" "paths_valid L (set_name L nm) (set_email L em) pw"
    and rl: "rl = (case map_of b ''role'' of None \<Rightarrow> ''user''
                   | Some r \<Rightarrow> if r = [] then ''user'' else r)"
    and unused: "findOne (\<lambda>u. email u = set_email L em) s = None"
    and wr: "faults s = []"
  shows "(rl \<in> set role_enum \<longrightarrow>
            (\<exists>cs a d s' u. register L now rnd1 rnd2 True req s
                               = (cs, Respond 201 (Session a rnd2 d), s')
               \<and> ud_role d = rl \<and> ud_email d = set_email L em
               \<and> findById (ud_id d) s' = Some u \<and> role u = rl \<and> email u = set_email L em))
       \<and> (rl \<notin> set role_enum \<longrightarrow>
            register L now rnd1 rnd2 True req s = ([], NextErr (Thrown ''ValidationError''), s))"
proof (intro conjI impI)
  assume bad: "rl \<notin> set role_enum"
  have "create L now (Some nm) (Some em) (Some pw) rl s = (Inl ''ValidationError'', s)"
    using bad by (simp add: create_def Let_def)
  then show "register L now rnd1 rnd2 True req s = ([], NextErr (Thrown ''ValidationError''), s)"
    using bd flds rl by (simp add: register_def Let_def)
next
  assume good: "rl \<in> set role_enum"
  let ?e = "set_email L em"
  let ?u0 = "new_user (fresh_id s) (set_name L nm) ?e pw rl"
  obtain d0 s1 where sv0: "save L now ?u0 s = (True, d0, s1)" and f1: "faults s1 = []"
    using save_unfaulted [OF wr] by blast
  from save_ok_role [OF sv0] have d0: "role d0 = rl" "email d0 = ?e" "user_id d0 = fresh_id s"
    by (auto simp: new_user_def)
  have cr: "create L now (Some nm) (Some em) (Some pw) rl s = (Inr d0, s1)"
    using flds good unused sv0 by (simp add: create_def Let_def)
  let ?u1 = "snd (getEmailVerificationToken L rnd1 d0)"
  obtain d1 s2 where sv1: "save L now ?u1 s1 = (True, d1, s2)"
    using save_unfaulted [OF f1] by blast
  from save_ok_role [OF sv1] obtain st where st: "findById (user_id d1) s2 = Some st"
    "role st = rl" "email st = ?e" and d1: "role d1 = rl" "email d1 = ?e"
    using d0 by (auto simp: getEmailVerificationToken_def)
  have resp: "sendTokenResponse L now rnd2 d1 201 s2 =
      ([SetCookie ''accessToken'' (getSignedJwtToken L now d1) (15 * 60 * 1000),
        SetCookie ''refreshToken'' rnd2 days7],
       Respond 201 (Session (getSignedJwtToken L now d1) rnd2 (userData_of d1)), s2)"
    by (simp add: sendTokenResponse_def getRefreshToken_def save_unawaited_def store_after_def
        Let_def)
  have "register L now rnd1 rnd2 True req s =
      ([SetCookie ''accessToken'' (getSignedJwtToken L now d1) (15 * 60 * 1000),
        SetCookie ''refreshToken'' rnd2 days7],
       Respond 201 (Session (getSignedJwtToken L now d1) rnd2 (userData_of d1)), s2)"
    using bd flds rl cr sv1 resp
    by (simp add: register_def Let_def getEmailVerificationToken_def)
  then show "\<exists>cs a d s' u. register L now rnd1 rnd2 True req s
                               = (cs, Respond 201 (Session a rnd2 d), s')
               \<and> ud_role d = rl \<and> ud_email d = set_email L em
               \<and> findById (ud_id d) s' = Some u \<and> role u = rl \<and> email u = set_email L em"
    using st d1 by (auto simp: userData_of_def)
qed

theorem register_role_witness:
  "\<exists>cs a d s' u.
      register demo_libs 5000 ''v1'' ''tok1'' True
        (register_request ''Mallory'' ''mallory@example.com'' ''Passw0rd!'' (Some ''admin''))
        demo_store
      = (cs, Respond 201 (Session a ''tok1'' d), s')
      \<and> ud_role d = ''admin'' \<and> ud_email d = ''mallory@example.com''
      \<and> findById (ud_id d) s' = Some u \<and> role u = ''admin'' \<and> email u = ''mallory@example.com''"
proof -
  let ?b = "[(''name'', ''Mallory''), (''email'', ''mallory@example.com''),
             (''password'', ''Passw0rd!''), (''role'', ''admin'')]"
  have 1: "body (register_request ''Mallory'' ''mallory@example.com'' ''Passw0rd!'' (Some ''admin''))
             = Some ?b"
    by (simp add: register_request_def demo_defs)
  have e: "set_email demo_libs ''mallory@example.com'' = ''mallory@example.com''"
    "set_name demo_libs ''Mallory'' = ''Mallory''"
    by (simp_all add: demo_defs)
  have 2: "map_of ?b ''name'' = Some ''Mallory''" "map_of ?b ''email'' = Some ''mallory@example.com''"
    "map_of ?b ''password'' = Some ''Passw0rd!''"
    "paths_valid demo_libs (set_name demo_libs ''Mallory'')
       (set_email demo_libs ''mallory@example.com'') ''Passw0rd!''"
    by (simp_all add: e) (simp add: demo_defs)
  have 3: "''admin'' = (case map_of ?b ''role'' of None \<Rightarrow> ''user''
                         | Some r \<Rightarrow> if r = [] then ''user'' else r)"
    by simp
  have 4: "findOne (\<lambda>u. email u = set_email demo_libs ''mallory@example.com'') demo_store = None"
    "faults demo_store = []"
    by (simp_all add: e) (simp_all add: demo_defs)
  have 5: "''admin'' \<in> set role_enum" by (simp add: role_enum_def)
  show ?thesis
    using register_role [OF 1 2 3 4, of 5000 "''v1''" "''tok1''"] 5 by (simp add: e)
qed

end
